theory Spec2Isabelle
  imports Main
begin

section \<open>JavaScript strings\<close>

text \<open>
  Strings are \<open>char list\<close>. The three string operations of \<open>collapsible.js\<close> are
  \<open>String.prototype.split(' ')\<close>, \<open>Array.prototype.join(' ')\<close> and
  \<open>String.prototype.toLowerCase()\<close>.

  \<open>''.split(' ')\<close> is \<open>['']\<close> (one empty piece), and two adjacent spaces give an
  empty piece between them.
\<close>

fun split_space :: "string \<Rightarrow> string list" where
  "split_space [] = [[]]"
| "split_space (c # cs) =
     (if c = CHR '' '' then [] # split_space cs
      else (case split_space cs of [] \<Rightarrow> [[c]] | w # ws \<Rightarrow> (c # w) # ws))"

fun join_space :: "string list \<Rightarrow> string" where
  "join_space [] = []"
| "join_space [w] = w"
| "join_space (w # v # ws) = w @ CHR '' '' # join_space (v # ws)"

text \<open>
  \<open>toLowerCase\<close> on the ASCII letters; every other character is left as it is. The code
  only compares the result with \<open>'false'\<close> and \<open>'button'\<close>, and no character outside
  \<open>A-Z\<close> lowercases to a letter of these words.
\<close>

definition toLowerCase_char :: "char \<Rightarrow> char" where
  "toLowerCase_char c =
     (case map_of (zip ''ABCDEFGHIJKLMNOPQRSTUVWXYZ'' ''abcdefghijklmnopqrstuvwxyz'') c of
        Some l \<Rightarrow> l
      | None \<Rightarrow> c)"

definition toLowerCase :: "string \<Rightarrow> string" where
  "toLowerCase s = map toLowerCase_char s"

section \<open>The DOM\<close>

text \<open>
  Elements are identified by a number. The tree structure (which the code only reads) is a
  document tree plus the trees of detached elements; what the code writes (attributes and
  class tokens) is held per element. The \<open>class\<close> attribute is held as its token list,
  which is all that \<open>classList.contains\<close> and \<open>classList.add\<close> read and write.

  \<open>randomString\<close> (imported from \<open>../utils/string-utils\<close>, not part of the sources at
  hand) is a parameter: its \<open>k\<close>-th call returns \<open>randomString d k\<close>.

  The browser's selector engine is a parameter too, for every selector text that the
  section on the selector \<open>#id\<close> below does not work out itself: given the id that follows
  \<open>#\<close> and the elements as they are at the call, \<open>selectorEngine\<close> says whether the text
  is a selector at all and, when it is, which element it selects (or none).
\<close>

type_synonym node = nat

datatype tree = Elem node "tree list"

datatype answer = NotASelector | Selects "node option"

record html_element =
  nodeName :: string
  attributes :: "string \<rightharpoonup> string"
  classList :: "string list"

record dom =
  document :: tree
  detached :: "tree list"
  elements :: "node \<Rightarrow> html_element"
  randomString :: "nat \<Rightarrow> string"
  randomCalls :: nat
  selectorEngine :: "string \<Rightarrow> (node \<Rightarrow> html_element) \<Rightarrow> answer"

datatype js_error = Error string | TypeError | SyntaxError

text \<open>
  A call either returns a value or throws; both leave a DOM behind, which for a throw
  holds whatever had been written before it.
\<close>

datatype 'a outcome =
    is_Done: Done (returned: 'a) (state: dom)
  | is_Thrown: Thrown (thrown: js_error) (state: dom)

subsection \<open>Attributes and class tokens\<close>

definition hasAttribute :: "dom \<Rightarrow> node \<Rightarrow> string \<Rightarrow> bool" where
  "hasAttribute d n a = (attributes (elements d n) a \<noteq> None)"

definition getAttribute :: "dom \<Rightarrow> node \<Rightarrow> string \<Rightarrow> string option" where
  "getAttribute d n a = attributes (elements d n) a"

definition setAttribute :: "dom \<Rightarrow> node \<Rightarrow> string \<Rightarrow> string \<Rightarrow> dom" where
  "setAttribute d n a v =
     d\<lparr>elements := (elements d)(n := (elements d n)
        \<lparr>attributes := (attributes (elements d n))(a \<mapsto> v)\<rparr>)\<rparr>"

definition removeAttribute :: "dom \<Rightarrow> node \<Rightarrow> string \<Rightarrow> dom" where
  "removeAttribute d n a =
     d\<lparr>elements := (elements d)(n := (elements d n)
        \<lparr>attributes := (attributes (elements d n))(a := None)\<rparr>)\<rparr>"

definition classList_contains :: "dom \<Rightarrow> node \<Rightarrow> string \<Rightarrow> bool" where
  "classList_contains d n c = (c \<in> set (classList (elements d n)))"

definition classList_add :: "dom \<Rightarrow> node \<Rightarrow> string \<Rightarrow> dom" where
  "classList_add d n c =
     (if c \<in> set (classList (elements d n)) then d
      else d\<lparr>elements := (elements d)(n := (elements d n)
        \<lparr>classList := classList (elements d n) @ [c]\<rparr>)\<rparr>)"

text \<open>The \<open>id\<close> property reflects the \<open>id\<close> attribute, and is \<open>''\<close> without it.\<close>

definition id_of :: "dom \<Rightarrow> node \<Rightarrow> string" where
  "id_of d n = (case getAttribute d n ''id'' of None \<Rightarrow> [] | Some v \<Rightarrow> v)"

subsection \<open>Tree traversal\<close>

fun root :: "tree \<Rightarrow> node" where
  "root (Elem n ts) = n"

fun children :: "tree \<Rightarrow> tree list" where
  "children (Elem n ts) = ts"

fun preorder :: "tree \<Rightarrow> node list" where
  "preorder (Elem n ts) = n # concat (map preorder ts)"

fun subtree_in :: "node \<Rightarrow> tree list \<Rightarrow> tree option" where
  "subtree_in n [] = None"
| "subtree_in n (Elem m cs # ts) =
     (if m = n then Some (Elem m cs)
      else (case subtree_in n cs of Some t \<Rightarrow> Some t | None \<Rightarrow> subtree_in n ts))"

fun siblings_after :: "node \<Rightarrow> tree list \<Rightarrow> node list option" where
  "siblings_after n [] = None"
| "siblings_after n (Elem m cs # ts) =
     (if m = n then Some (map root ts)
      else (case siblings_after n cs of Some r \<Rightarrow> Some r | None \<Rightarrow> siblings_after n ts))"

fun first_some :: "('a \<Rightarrow> 'b option) \<Rightarrow> 'a list \<Rightarrow> 'b option" where
  "first_some f [] = None"
| "first_some f (x # xs) = (case f x of Some y \<Rightarrow> Some y | None \<Rightarrow> first_some f xs)"

text \<open>The descendants of an element, in tree order (the element itself excluded).\<close>

definition descendants :: "dom \<Rightarrow> node \<Rightarrow> node list" where
  "descendants d n =
     (case subtree_in n (document d # detached d) of None \<Rightarrow> [] | Some t \<Rightarrow> tl (preorder t))"

text \<open>
  The chain \<open>n.nextElementSibling\<close>, \<open>n.nextElementSibling.nextElementSibling\<close>, ... up to
  \<open>null\<close>. The root of a tree has no sibling.
\<close>

definition followingSiblings :: "dom \<Rightarrow> node \<Rightarrow> node list" where
  "followingSiblings d n =
     (case first_some (\<lambda>t. siblings_after n (children t)) (document d # detached d) of
        None \<Rightarrow> [] | Some r \<Rightarrow> r)"

text \<open>\<open>element.querySelector('.' + cls)\<close>: the first descendant carrying the class.\<close>

definition element_querySelector :: "dom \<Rightarrow> node \<Rightarrow> string \<Rightarrow> node option" where
  "element_querySelector d e cls = List.find (\<lambda>n. classList_contains d n cls) (descendants d e)"

subsection \<open>The selector \<open>#id\<close>\<close>

text \<open>
  \<open>document.querySelector\<close> on the text \<open>#\<close> followed by the id parses that text as a CSS
  selector. When the id is a plain ASCII identifier (a letter or underscore, then letters,
  digits, \<open>_\<close>, \<open>-\<close>) this is the id selector, matching the first element of the document
  whose \<open>id\<close> attribute is that string (compared exactly, as in a document that is not
  in quirks mode). When the id is empty or starts with a digit the
  text is not a selector and \<open>querySelector\<close> throws a \<open>SyntaxError\<close>. Any other text
  (escapes, \<open>#a.b\<close>, non-ASCII, a leading hyphen, ...) is left to the parameter
  \<open>selectorEngine\<close>: \<open>querySelector\<close> throws a \<open>SyntaxError\<close> when the text is not a
  selector, and otherwise returns the element selected, or \<open>null\<close>.
\<close>

definition is_letter :: "char \<Rightarrow> bool" where
  "is_letter c =
     (c \<in> set ''abcdefghijklmnopqrstuvwxyzABCDEFGHIJKLMNOPQRSTUVWXYZ'')"

definition is_digit :: "char \<Rightarrow> bool" where
  "is_digit c = (c \<in> set ''0123456789'')"

definition is_ident_start :: "char \<Rightarrow> bool" where
  "is_ident_start c = (is_letter c \<or> c = CHR ''_'')"

definition is_ident_char :: "char \<Rightarrow> bool" where
  "is_ident_char c = (is_ident_start c \<or> is_digit c \<or> c = CHR ''-'')"

datatype selector = IdSelector string | InvalidSelector | OtherSelector

fun id_selector :: "string \<Rightarrow> selector" where
  "id_selector [] = InvalidSelector"
| "id_selector (c # cs) =
     (if is_digit c then InvalidSelector
      else if is_ident_start c \<and> list_all is_ident_char cs then IdSelector (c # cs)
      else OtherSelector)"

definition document_querySelector :: "dom \<Rightarrow> string \<Rightarrow> js_error + node option" where
  "document_querySelector d i =
     (case id_selector i of
        IdSelector j \<Rightarrow>
          Inr (List.find (\<lambda>n. getAttribute d n ''id'' = Some j) (preorder (document d)))
      | InvalidSelector \<Rightarrow> Inl SyntaxError
      | OtherSelector \<Rightarrow>
          (case selectorEngine d i (elements d) of
             NotASelector \<Rightarrow> Inl SyntaxError
           | Selects r \<Rightarrow> Inr r))"

section \<open>The class \<open>Collapsible\<close>\<close>

definition JS_COLLAPSIBLE :: string where
  "JS_COLLAPSIBLE = ''mdlext-js-collapsible''"

definition COLLAPSIBLE_CONTROL_CLASS :: string where
  "COLLAPSIBLE_CONTROL_CLASS = ''mdlext-collapsible-control''"

definition COLLAPSIBLE_REGION_CLASS :: string where
  "COLLAPSIBLE_REGION_CLASS = ''mdlext-collapsible-region''"

text \<open>
  A \<open>collapsible\<close> is an object whose constructor has returned (fields \<open>element_\<close> and
  \<open>controlElement_\<close>, named here by their getters): \<open>init\<close> throws when it
  finds no control, so \<open>controlElement\<close> is an element, never \<open>null\<close>.
\<close>

record collapsible =
  element :: node
  controlElement :: node

definition regionIds :: "dom \<Rightarrow> collapsible \<Rightarrow> string list" where
  "regionIds d this =
     (case getAttribute d (controlElement this) ''aria-controls'' of
        Some v \<Rightarrow> split_space v
      | None \<Rightarrow> [])"

text \<open>\<open>ids.map(id => document.querySelector(...))\<close> stops at the first call that throws.\<close>

fun map_querySelector :: "dom \<Rightarrow> string list \<Rightarrow> js_error + node option list" where
  "map_querySelector d [] = Inr []"
| "map_querySelector d (i # is) =
     (case document_querySelector d i of
        Inl e \<Rightarrow> Inl e
      | Inr r \<Rightarrow> (case map_querySelector d is of Inl e \<Rightarrow> Inl e | Inr rs \<Rightarrow> Inr (r # rs)))"

definition regionElements :: "dom \<Rightarrow> collapsible \<Rightarrow> js_error + node list" where
  "regionElements d this =
     (case map_querySelector d (regionIds d this) of
        Inl e \<Rightarrow> Inl e
      | Inr rs \<Rightarrow> Inr (List.map_filter (\<lambda>el. el) rs))"

definition collapse :: "dom \<Rightarrow> collapsible \<Rightarrow> unit outcome" where
  "collapse d this =
     (let d1 = setAttribute d (controlElement this) ''aria-expanded'' ''false'' in
      case regionElements d1 this of
        Inl e \<Rightarrow> Thrown e d1
      | Inr rs \<Rightarrow> Done () (fold (\<lambda>region s. setAttribute s region ''hidden'' []) rs d1))"

definition expand :: "dom \<Rightarrow> collapsible \<Rightarrow> unit outcome" where
  "expand d this =
     (let d1 = setAttribute d (controlElement this) ''aria-expanded'' ''true'' in
      case regionElements d1 this of
        Inl e \<Rightarrow> Thrown e d1
      | Inr rs \<Rightarrow> Done () (fold (\<lambda>region s. removeAttribute s region ''hidden'') rs d1))"

text \<open>\<open>getAttribute\<close> returns \<open>null\<close> for a missing attribute; \<open>null.toLowerCase()\<close> throws.\<close>

definition toggle :: "dom \<Rightarrow> collapsible \<Rightarrow> unit outcome" where
  "toggle d this =
     (case getAttribute d (controlElement this) ''aria-expanded'' of
        None \<Rightarrow> Thrown TypeError d
      | Some v \<Rightarrow> if toLowerCase v = ''false'' then expand d this else collapse d this)"

text \<open>
  \<open>ids.find(id => regionId === id)\<close> returns the element found or \<open>undefined\<close>, and the
  code tests the negation of that value: an empty string that was found is falsy too.
\<close>

definition falsy :: "string option \<Rightarrow> bool" where
  "falsy r = (case r of None \<Rightarrow> True | Some s \<Rightarrow> s = [])"

definition addRegionId :: "dom \<Rightarrow> collapsible \<Rightarrow> string \<Rightarrow> dom" where
  "addRegionId d this regionId =
     (let ids = regionIds d this in
      if falsy (List.find (\<lambda>i. regionId = i) ids)
      then setAttribute d (controlElement this) ''aria-controls'' (join_space (ids @ [regionId]))
      else d)"

definition addRegionElement :: "dom \<Rightarrow> collapsible \<Rightarrow> node \<Rightarrow> unit outcome" where
  "addRegionElement d this region =
     (let d1 = (if \<not> hasAttribute d region ''id''
                then (setAttribute d region ''id'' (''region-'' @ randomString d (randomCalls d)))
                       \<lparr>randomCalls := Suc (randomCalls d)\<rparr>
                else d);
          d2 = classList_add d1 region COLLAPSIBLE_REGION_CLASS;
          d3 = setAttribute d2 region ''role'' ''region''
      in case getAttribute d3 (controlElement this) ''aria-expanded'' of
           None \<Rightarrow> Thrown TypeError d3
         | Some v \<Rightarrow>
             (let d4 = (if toLowerCase v = ''false'' then setAttribute d3 region ''hidden'' []
                        else removeAttribute d3 region ''hidden'');
                  d5 = (if \<not> hasAttribute d4 region ''tabindex''
                        then setAttribute d4 region ''tabindex'' ''-1'' else d4)
              in Done () (addRegionId d5 this (id_of d5 region))))"

text \<open>\<open>region\<close> may be \<open>null\<close> here: the code tests \<open>region && region.id\<close>.\<close>

definition removeRegionElement :: "dom \<Rightarrow> collapsible \<Rightarrow> node option \<Rightarrow> dom" where
  "removeRegionElement d this region =
     (case region of
        None \<Rightarrow> d
      | Some r \<Rightarrow>
          if id_of d r \<noteq> []
          then setAttribute d (controlElement this) ''aria-controls''
                 (join_space (filter (\<lambda>i. i = id_of d r) (regionIds d this)))
          else d)"

subsection \<open>\<open>init\<close>\<close>

definition MISSING_CONTROL :: js_error where
  "MISSING_CONTROL =
     Error ''A collapsible must contain an element with class=\"mdlext-collapsible-control\"''"

definition initControl :: "dom \<Rightarrow> node \<Rightarrow> collapsible outcome" where
  "initControl d e =
     (case element_querySelector d e COLLAPSIBLE_CONTROL_CLASS of
        None \<Rightarrow> Thrown MISSING_CONTROL d
      | Some c \<Rightarrow>
          (let d1 = (if \<not> hasAttribute d c ''aria-expanded''
                     then setAttribute d c ''aria-expanded'' ''false'' else d);
               d2 = (if toLowerCase (nodeName (elements d1 c)) \<noteq> ''button''
                     then setAttribute d1 c ''role'' ''button'' else d1);
               d3 = (if \<not> hasAttribute d2 c ''tabindex''
                     then setAttribute d2 c ''tabindex'' ''0'' else d2)
           in Done \<lparr>element = e, controlElement = c\<rparr> d3))"

text \<open>
  The sibling walk of \<open>initRegions\<close>: \<open>rs\<close> is what is left of the chain of
  \<open>nextElementSibling\<close>, \<open>regions\<close> the array built so far.
\<close>

fun walkSiblings :: "dom \<Rightarrow> node list \<Rightarrow> node list \<Rightarrow> node list" where
  "walkSiblings d [] regions = regions"
| "walkSiblings d (r # rs) regions =
     (if classList_contains d r COLLAPSIBLE_REGION_CLASS then walkSiblings d rs (regions @ [r])
      else if classList_contains d r JS_COLLAPSIBLE then regions
      else walkSiblings d rs regions)"

text \<open>
  \<open>regions.forEach(region => this.addRegionElement(region))\<close>: the first call that
  throws ends the loop.
\<close>

fun forEach_addRegionElement :: "dom \<Rightarrow> collapsible \<Rightarrow> node list \<Rightarrow> unit outcome" where
  "forEach_addRegionElement d this [] = Done () d"
| "forEach_addRegionElement d this (region # regions) =
     (case addRegionElement d this region of
        Thrown e d' \<Rightarrow> Thrown e d'
      | Done u d' \<Rightarrow> forEach_addRegionElement d' this regions)"

text \<open>\<open>elements.forEach(element => this.removeRegionElement(element))\<close>, which never throws.\<close>

fun forEach_removeRegionElement :: "dom \<Rightarrow> collapsible \<Rightarrow> node option list \<Rightarrow> dom" where
  "forEach_removeRegionElement d this [] = d"
| "forEach_removeRegionElement d this (region # regions) =
     forEach_removeRegionElement (removeRegionElement d this region) this regions"

definition initRegions :: "dom \<Rightarrow> collapsible \<Rightarrow> unit outcome" where
  "initRegions d this =
     (case (if \<not> hasAttribute d (controlElement this) ''aria-controls''
            then Inr (walkSiblings d (followingSiblings d (element this)) [])
            else regionElements d this) of
        Inl e \<Rightarrow> Thrown e d
      | Inr regions \<Rightarrow> forEach_addRegionElement d this regions)"

definition init :: "dom \<Rightarrow> node \<Rightarrow> collapsible outcome" where
  "init d e =
     (case initControl d e of
        Thrown err d' \<Rightarrow> Thrown err d'
      | Done this d1 \<Rightarrow>
          (case initRegions d1 this of
             Thrown err d' \<Rightarrow> Thrown err d'
           | Done u d2 \<Rightarrow> Done this d2))"

text \<open>The constructor stores the element and runs \<open>init\<close>.\<close>

definition Collapsible :: "dom \<Rightarrow> node \<Rightarrow> collapsible outcome" where
  "Collapsible d e = init d e"

section \<open>The widget \<open>MaterialExtCollapsible\<close>\<close>

text \<open>
  The object registered with the component handler. Its field \<open>collapsible\<close> is \<open>null\<close>
  until \<open>init\<close> has built the \<open>Collapsible\<close>; a method called on \<open>null\<close> throws a
  \<open>TypeError\<close>. The class name \<open>IS_UPGRADED\<close> is imported from \<open>../utils/constants\<close>,
  not part of the sources at hand, and is a parameter of the constructor here.
\<close>

record widget =
  widget_element :: "node option"
  collapsible :: "collapsible option"

definition widget_init :: "string \<Rightarrow> dom \<Rightarrow> widget \<Rightarrow> widget outcome" where
  "widget_init IS_UPGRADED d w =
     (case widget_element w of
        None \<Rightarrow> Done w d
      | Some e \<Rightarrow>
          (case Collapsible d e of
             Thrown err d' \<Rightarrow> Thrown err d'
           | Done c d' \<Rightarrow> Done (w\<lparr>collapsible := Some c\<rparr>) (classList_add d' e IS_UPGRADED)))"

definition MaterialExtCollapsible :: "string \<Rightarrow> dom \<Rightarrow> node option \<Rightarrow> widget outcome" where
  "MaterialExtCollapsible IS_UPGRADED d e =
     widget_init IS_UPGRADED d \<lparr>widget_element = e, collapsible = None\<rparr>"

definition getControlElement :: "widget \<Rightarrow> js_error + node" where
  "getControlElement w =
     (case collapsible w of None \<Rightarrow> Inl TypeError | Some c \<Rightarrow> Inr (controlElement c))"

definition getRegionElements :: "dom \<Rightarrow> widget \<Rightarrow> js_error + node list" where
  "getRegionElements d w =
     (case collapsible w of None \<Rightarrow> Inl TypeError | Some c \<Rightarrow> regionElements d c)"

text \<open>
  With \<open>collapsible\<close> still \<open>null\<close>, the callback of \<open>elements.forEach\<close> throws at the
  first element; with no element it is never called.
\<close>

definition addRegionElements :: "dom \<Rightarrow> widget \<Rightarrow> node list \<Rightarrow> unit outcome" where
  "addRegionElements d w els =
     (case collapsible w of
        None \<Rightarrow> (case els of [] \<Rightarrow> Done () d | el # rest \<Rightarrow> Thrown TypeError d)
      | Some c \<Rightarrow> forEach_addRegionElement d c els)"

definition removeRegionElements :: "dom \<Rightarrow> widget \<Rightarrow> node option list \<Rightarrow> unit outcome" where
  "removeRegionElements d w els =
     (case collapsible w of
        None \<Rightarrow> (case els of [] \<Rightarrow> Done () d | el # rest \<Rightarrow> Thrown TypeError d)
      | Some c \<Rightarrow> Done () (forEach_removeRegionElement d c els))"

definition widget_expand :: "dom \<Rightarrow> widget \<Rightarrow> unit outcome" where
  "widget_expand d w =
     (case collapsible w of None \<Rightarrow> Thrown TypeError d | Some c \<Rightarrow> expand d c)"

definition widget_collapse :: "dom \<Rightarrow> widget \<Rightarrow> unit outcome" where
  "widget_collapse d w =
     (case collapsible w of None \<Rightarrow> Thrown TypeError d | Some c \<Rightarrow> collapse d c)"

definition widget_toggle :: "dom \<Rightarrow> widget \<Rightarrow> unit outcome" where
  "widget_toggle d w =
     (case collapsible w of None \<Rightarrow> Thrown TypeError d | Some c \<Rightarrow> toggle d c)"

section \<open>Initialized components\<close>

text \<open>
  A component is initialized once its constructor has returned, and stays so when the
  widget marks its element as upgraded and through every call of its public operations,
  whether the call returns or throws.
\<close>

inductive initialized :: "collapsible \<Rightarrow> dom \<Rightarrow> bool" where
  constructed: "Collapsible d e = Done this d' \<Longrightarrow> initialized this d'"
| upgraded: "initialized this d \<Longrightarrow> initialized this (classList_add d (element this) cls)"
| expanded: "initialized this d \<Longrightarrow> initialized this (state (expand d this))"
| collapsed: "initialized this d \<Longrightarrow> initialized this (state (collapse d this))"
| toggled: "initialized this d \<Longrightarrow> initialized this (state (toggle d this))"
| region_added: "initialized this d \<Longrightarrow> initialized this (state (addRegionElement d this r))"
| region_removed: "initialized this d \<Longrightarrow> initialized this (removeRegionElement d this r)"

section \<open>Pages used as concrete inputs\<close>

text \<open>
  The pages follow the fixtures of \<open>collapsible.spec.js\<close>: a container (node 0) holding the
  component \<open>div.mdlext-js-collapsible\<close> (node 1) with the control (node 2) inside it,
  followed by two sibling elements (nodes 3 and 4). No id on these pages is left to
  \<open>selectorEngine\<close>, which is set here to reject every text.
\<close>

definition mk_element :: "string \<Rightarrow> (string \<times> string) list \<Rightarrow> string list \<Rightarrow> html_element" where
  "mk_element nn as cs = \<lparr>nodeName = nn, attributes = map_of as, classList = cs\<rparr>"

definition fixture :: "html_element \<Rightarrow> html_element \<Rightarrow> html_element \<Rightarrow> dom" where
  "fixture control sibling1 sibling2 =
     \<lparr>document = Elem 0 [Elem 1 [Elem 2 []], Elem 3 [], Elem 4 []],
      detached = [],
      elements = (\<lambda>n. if n = 1 then mk_element ''DIV'' [] [JS_COLLAPSIBLE]
                      else if n = 2 then control
                      else if n = 3 then sibling1
                      else if n = 4 then sibling2
                      else mk_element ''DIV'' [] []),
      randomString = (\<lambda>k. replicate (Suc k) CHR ''x''),
      randomCalls = 0,
      selectorEngine = (\<lambda>i els. NotASelector)\<rparr>"

definition button_control :: "(string \<times> string) list \<Rightarrow> html_element" where
  "button_control as = mk_element ''BUTTON'' as [COLLAPSIBLE_CONTROL_CLASS]"

definition region_div :: "(string \<times> string) list \<Rightarrow> html_element" where
  "region_div as = mk_element ''DIV'' as [COLLAPSIBLE_REGION_CLASS]"

definition the_component :: collapsible where
  "the_component = \<lparr>element = 1, controlElement = 2\<rparr>"

text \<open>Two regions named by \<open>aria-controls\<close> (fixture \<open>one_to_many_aria_controls\<close>).\<close>

definition page_aria_controls :: dom where
  "page_aria_controls =
     fixture (button_control [(''aria-expanded'', ''true''), (''aria-controls'', ''region-1 region-2'')])
       (region_div [(''id'', ''region-1'')]) (region_div [(''id'', ''region-2'')])"

text \<open>Two regions found as siblings (fixture \<open>one_to_many_siblings\<close>).\<close>

definition page_siblings :: dom where
  "page_siblings = fixture (button_control []) (region_div []) (region_div [])"

text \<open>A control whose \<open>aria-controls\<close> attribute is present and empty.\<close>

definition page_empty_controls :: dom where
  "page_empty_controls =
     fixture (button_control [(''aria-controls'', [])]) (region_div []) (region_div [])"

text \<open>A sibling region whose \<open>id\<close> attribute is present and empty.\<close>

definition page_empty_id :: dom where
  "page_empty_id =
     fixture (button_control []) (region_div [(''id'', [])]) (mk_element ''DIV'' [] [])"

text \<open>The first sibling is itself a component that also carries the region class.\<close>

definition page_nested_component :: dom where
  "page_nested_component =
     fixture (button_control [])
       (mk_element ''DIV'' [] [JS_COLLAPSIBLE, COLLAPSIBLE_REGION_CLASS]) (region_div [])"

text \<open>A link as control and a tab panel as region, both with a role given in the markup.\<close>

definition page_author_roles :: dom where
  "page_author_roles =
     fixture (mk_element ''A'' [(''role'', ''link''), (''aria-controls'', ''region-1'')]
                [COLLAPSIBLE_CONTROL_CLASS])
       (region_div [(''id'', ''region-1''), (''role'', ''tabpanel'')]) (region_div [])"

text \<open>Two sibling regions with ids \<open>a\<close> and \<open>1\<close>.\<close>

definition page_numeric_id :: dom where
  "page_numeric_id =
     fixture (button_control []) (region_div [(''id'', ''a'')]) (region_div [(''id'', ''1'')])"

text \<open>A detached \<open>div\<close> (node 5) with nothing inside, beside the page of sibling regions.\<close>

definition page_no_control :: dom where
  "page_no_control = page_siblings\<lparr>detached := [Elem 5 []]\<rparr>"

section \<open>The sibling walk as the specification words it\<close>

text \<open>
  The specification's reading of the walk: it stops at the first following sibling with
  class \<open>mdlext-js-collapsible\<close>, and the siblings with class
  \<open>mdlext-collapsible-region\<close> met before that one are the regions.
\<close>

definition spec_siblingRegions :: "dom \<Rightarrow> node \<Rightarrow> node list" where
  "spec_siblingRegions d e =
     filter (\<lambda>r. classList_contains d r COLLAPSIBLE_REGION_CLASS)
       (takeWhile (\<lambda>r. \<not> classList_contains d r JS_COLLAPSIBLE) (followingSiblings d e))"




section \<open>Plain identifiers\<close>

text \<open>An id for which \<open>#id\<close> is the id selector of this model.\<close>

definition is_identifier :: "string \<Rightarrow> bool" where
  "is_identifier i = (id_selector i = IdSelector i)"



text \<open>What \<open>addRegionElement\<close> leaves on a region, given the control's \<open>aria-expanded\<close>.\<close>

definition normalized_region :: "dom \<Rightarrow> collapsible \<Rightarrow> node \<Rightarrow> bool" where
  "normalized_region d this r =
     (hasAttribute d r ''id''
      \<and> classList_contains d r COLLAPSIBLE_REGION_CLASS
      \<and> getAttribute d r ''role'' = Some ''region''
      \<and> (case getAttribute d (controlElement this) ''aria-expanded'' of
            None \<Rightarrow> False
          | Some v \<Rightarrow> getAttribute d r ''hidden''
                       = (if toLowerCase v = ''false'' then Some [] else None))
      \<and> hasAttribute d r ''tabindex'')"

section \<open>Facts about the string operations\<close>

lemma split_space_not_Nil [simp]: "split_space s \<noteq> []"
  by (induction s) (auto split: list.splits)

lemma join_split_space [simp]: "join_space (split_space s) = s"
proof (induction s)
  case Nil
  show ?case by simp
next
  case (Cons c cs)
  obtain w ws where sp: "split_space cs = w # ws"
    by (cases "split_space cs") auto
  with Cons show ?case
    by (cases ws) auto
qed

lemma split_space_no_space: "w \<in> set (split_space s) \<Longrightarrow> CHR '' '' \<notin> set w"
  by (induction s arbitrary: w) (auto split: if_splits list.splits)

lemma split_space_single: "CHR '' '' \<notin> set w \<Longrightarrow> split_space w = [w]"
  by (induction w) auto

lemma split_space_append:
  "split_space (a @ CHR '' '' # b) = split_space a @ split_space b"
proof (induction a)
  case Nil
  show ?case by simp
next
  case (Cons c cs)
  obtain w ws where sp: "split_space cs = w # ws"
    by (cases "split_space cs") auto
  with Cons show ?case by auto
qed

lemma join_space_snoc:
  "xs \<noteq> [] \<Longrightarrow> join_space (xs @ [w]) = join_space xs @ CHR '' '' # w"
  by (induction xs rule: join_space.induct) auto

lemma split_join_space:
  "xs \<noteq> [] \<Longrightarrow> \<forall>w \<in> set xs. CHR '' '' \<notin> set w \<Longrightarrow> split_space (join_space xs) = xs"
proof (induction xs rule: join_space.induct)
  case 1
  then show ?case by simp
next
  case (2 w)
  then show ?case by (simp add: split_space_single)
next
  case (3 w v ws)
  then show ?case by (simp add: split_space_append split_space_single)
qed

section \<open>Facts about the DOM operations\<close>

lemma hasAttribute_iff: "hasAttribute d n a = (getAttribute d n a \<noteq> None)"
  by (simp add: hasAttribute_def getAttribute_def)

lemma getAttribute_setAttribute [simp]:
  "getAttribute (setAttribute d n a v) m b =
     (if m = n \<and> b = a then Some v else getAttribute d m b)"
  by (simp add: getAttribute_def setAttribute_def)

lemma getAttribute_removeAttribute [simp]:
  "getAttribute (removeAttribute d n a) m b =
     (if m = n \<and> b = a then None else getAttribute d m b)"
  by (simp add: getAttribute_def removeAttribute_def)

lemma getAttribute_classList_add [simp]:
  "getAttribute (classList_add d n c) m b = getAttribute d m b"
  by (simp add: getAttribute_def classList_add_def)

lemma getAttribute_randomCalls [simp]:
  "getAttribute (d\<lparr>randomCalls := k\<rparr>) m b = getAttribute d m b"
  by (simp add: getAttribute_def)

lemma classList_contains_setAttribute [simp]:
  "classList_contains (setAttribute d n a v) m c = classList_contains d m c"
  by (simp add: classList_contains_def setAttribute_def)

lemma classList_contains_removeAttribute [simp]:
  "classList_contains (removeAttribute d n a) m c = classList_contains d m c"
  by (simp add: classList_contains_def removeAttribute_def)

lemma classList_contains_randomCalls [simp]:
  "classList_contains (d\<lparr>randomCalls := k\<rparr>) m c = classList_contains d m c"
  by (simp add: classList_contains_def)

lemma classList_contains_classList_add [simp]:
  "classList_contains (classList_add d n c) m c' =
     (classList_contains d m c' \<or> (m = n \<and> c' = c))"
  by (auto simp: classList_contains_def classList_add_def)

lemma frame_setAttribute [simp]:
  "document (setAttribute d n a v) = document d"
  "detached (setAttribute d n a v) = detached d"
  "nodeName (elements (setAttribute d n a v) m) = nodeName (elements d m)"
  "randomString (setAttribute d n a v) = randomString d"
  "randomCalls (setAttribute d n a v) = randomCalls d"
  by (simp_all add: setAttribute_def)

lemma frame_removeAttribute [simp]:
  "document (removeAttribute d n a) = document d"
  "detached (removeAttribute d n a) = detached d"
  "nodeName (elements (removeAttribute d n a) m) = nodeName (elements d m)"
  "randomString (removeAttribute d n a) = randomString d"
  "randomCalls (removeAttribute d n a) = randomCalls d"
  by (simp_all add: removeAttribute_def)

lemma frame_classList_add [simp]:
  "document (classList_add d n c) = document d"
  "detached (classList_add d n c) = detached d"
  "nodeName (elements (classList_add d n c) m) = nodeName (elements d m)"
  "randomString (classList_add d n c) = randomString d"
  "randomCalls (classList_add d n c) = randomCalls d"
  by (simp_all add: classList_add_def)

section \<open>The list of region ids\<close>

lemma regionIds_setAttribute_other [simp]:
  "a \<noteq> ''aria-controls'' \<Longrightarrow> regionIds (setAttribute d n a v) this = regionIds d this"
  by (simp add: regionIds_def)

lemma regionIds_no_space: "i \<in> set (regionIds d this) \<Longrightarrow> CHR '' '' \<notin> set i"
  by (auto simp: regionIds_def split_space_no_space split: option.splits)

lemma regionIds_set_controls:
  "xs \<noteq> [] \<Longrightarrow> \<forall>w \<in> set xs. CHR '' '' \<notin> set w \<Longrightarrow>
   regionIds (setAttribute d (controlElement this) ''aria-controls'' (join_space xs)) this = xs"
  by (simp add: regionIds_def split_join_space)

lemma falsy_find: "falsy (List.find (\<lambda>i. r = i) ids) = (r \<notin> set ids \<or> r = [])"
  by (induction ids) (auto simp: falsy_def)

lemma addRegionId_eq:
  "addRegionId d this r =
     (if r \<notin> set (regionIds d this) \<or> r = []
      then setAttribute d (controlElement this) ''aria-controls''
             (join_space (regionIds d this @ [r]))
      else d)"
  by (simp add: addRegionId_def falsy_find Let_def)

section \<open>Removing a region\<close>

text \<open>
  Claim C3. When the control's \<open>aria-controls\<close> lists the id of a region (possibly among
  other ids), \<open>removeRegionElement(region)\<close> with that region, which is not \<open>null\<close> and has
  a non-empty id, sets \<open>aria-controls\<close> to the join of exactly those listed ids that are
  equal to \<open>region.id\<close>: every other id is dropped, and the id of the region passed for
  removal is the one that stays listed.
\<close>

theorem removeRegionElement_keeps_region_id:
  assumes "getAttribute d r ''id'' = Some rid" and "rid \<noteq> []"
    and "rid \<in> set (regionIds d this)"
  shows "getAttribute (removeRegionElement d this (Some r)) (controlElement this) ''aria-controls''
           = Some (join_space (filter (\<lambda>i. i = rid) (regionIds d this)))
       \<and> regionIds (removeRegionElement d this (Some r)) this
           = filter (\<lambda>i. i = rid) (regionIds d this)
       \<and> set (regionIds (removeRegionElement d this (Some r)) this) = {rid}"
proof -
  let ?kept = "filter (\<lambda>i. i = rid) (regionIds d this)"
  have rm: "removeRegionElement d this (Some r)
              = setAttribute d (controlElement this) ''aria-controls'' (join_space ?kept)"
    using assms(1,2) by (simp add: removeRegionElement_def id_of_def)
  have ne: "?kept \<noteq> []"
    using assms(3) by (simp add: filter_empty_conv)
  have nosp: "\<forall>w \<in> set ?kept. CHR '' '' \<notin> set w"
    using regionIds_no_space by auto
  have ids: "regionIds (removeRegionElement d this (Some r)) this = ?kept"
    unfolding rm using ne nosp by (rule regionIds_set_controls)
  have "set ?kept = {rid}"
    using assms(3) by auto
  with rm ids show ?thesis by simp
qed

text \<open>
  On the page with \<open>aria-controls="region-1 region-2"\<close>, removing \<open>region-1\<close> (node 3)
  leaves \<open>aria-controls="region-1"\<close>.
\<close>

theorem removeRegionElement_keeps_region_id_witness:
  "getAttribute page_aria_controls 3 ''id'' = Some ''region-1''
   \<and> ''region-1'' \<in> set (regionIds page_aria_controls the_component)
   \<and> getAttribute (removeRegionElement page_aria_controls the_component (Some 3)) 2
         ''aria-controls'' = Some ''region-1''
   \<and> regionIds (removeRegionElement page_aria_controls the_component (Some 3)) the_component
         = [''region-1'']"
proof -
  have h1: "getAttribute page_aria_controls 3 ''id'' = Some ''region-1''"
    by code_simp
  have h2: "''region-1'' \<noteq> []"
    by simp
  have h3: "''region-1'' \<in> set (regionIds page_aria_controls the_component)"
    by code_simp
  have c: "controlElement the_component = 2"
    by (simp add: the_component_def)
  have k: "filter (\<lambda>i. i = ''region-1'') (regionIds page_aria_controls the_component)
             = [''region-1'']"
    by code_simp
  show ?thesis
    using removeRegionElement_keeps_region_id [OF h1 h2 h3] h1 h3 by (simp add: c k)
qed

section \<open>Outcomes and \<open>forEach\<close>\<close>

lemma outcome_eq_Done: "is_Done x \<Longrightarrow> returned x = t \<Longrightarrow> x = Done t (state x)"
  by (cases x) auto

lemma forEach_addRegionElement_induct:
  assumes "\<And>r s. P s \<Longrightarrow> P (state (addRegionElement s this r))" and "P d"
  shows "P (state (forEach_addRegionElement d this rs))"
  using assms(2)
proof (induction rs arbitrary: d)
  case Nil
  then show ?case by simp
next
  case (Cons r rs)
  from assms(1) [OF Cons.prems, of r] show ?case
    by (cases "addRegionElement d this r") (auto intro: Cons.IH)
qed

lemma forEach_removeRegionElement_induct:
  assumes "\<And>r s. P s \<Longrightarrow> P (removeRegionElement s this r)" and "P d"
  shows "P (forEach_removeRegionElement d this rs)"
  using assms(2) by (induction rs arbitrary: d) (auto intro: assms(1))

section \<open>What the operations leave alone\<close>

lemma getAttribute_fold_setAttribute:
  "getAttribute (fold (\<lambda>r s. setAttribute s r a v) rs d) m b =
     (if m \<in> set rs \<and> b = a then Some v else getAttribute d m b)"
  by (induction rs arbitrary: d) auto

lemma getAttribute_fold_removeAttribute:
  "getAttribute (fold (\<lambda>r s. removeAttribute s r a) rs d) m b =
     (if m \<in> set rs \<and> b = a then None else getAttribute d m b)"
  by (induction rs arbitrary: d) auto

lemma state_expand_aria_expanded:
  "getAttribute (state (expand d this)) (controlElement this) ''aria-expanded'' = Some ''true''"
  by (simp add: expand_def Let_def getAttribute_fold_removeAttribute split: sum.splits)

lemma state_collapse_aria_expanded:
  "getAttribute (state (collapse d this)) (controlElement this) ''aria-expanded'' = Some ''false''"
  by (simp add: collapse_def Let_def getAttribute_fold_setAttribute split: sum.splits)

lemma addRegionId_other:
  "b \<noteq> ''aria-controls'' \<Longrightarrow> getAttribute (addRegionId d this i) m b = getAttribute d m b"
  by (simp add: addRegionId_eq)

lemma addRegionElement_other:
  assumes "b \<notin> {''id'', ''role'', ''hidden'', ''tabindex'', ''aria-controls''}"
  shows "getAttribute (state (addRegionElement d this r)) m b = getAttribute d m b"
  using assms
  by (simp add: addRegionElement_def Let_def addRegionId_other hasAttribute_iff split: option.splits)

lemma removeRegionElement_other:
  "b \<noteq> ''aria-controls'' \<Longrightarrow> getAttribute (removeRegionElement d this r) m b = getAttribute d m b"
  by (simp add: removeRegionElement_def split: option.splits)

lemma addRegionElement_Done:
  "hasAttribute d (controlElement this) ''aria-expanded'' \<Longrightarrow> is_Done (addRegionElement d this r)"
  by (auto simp add: addRegionElement_def Let_def hasAttribute_iff split: option.splits)

lemma forEach_addRegionElement_other:
  assumes "b \<notin> {''id'', ''role'', ''hidden'', ''tabindex'', ''aria-controls''}"
  shows "getAttribute (state (forEach_addRegionElement d this rs)) m b = getAttribute d m b"
  by (rule forEach_addRegionElement_induct [where P = "\<lambda>s. getAttribute s m b = getAttribute d m b"])
     (simp_all add: addRegionElement_other [OF assms])

lemma forEach_addRegionElement_Done:
  "hasAttribute d (controlElement this) ''aria-expanded'' \<Longrightarrow>
   is_Done (forEach_addRegionElement d this rs)"
proof (induction rs arbitrary: d)
  case Nil
  then show ?case by simp
next
  case (Cons r rs)
  from addRegionElement_Done [OF Cons.prems, of r]
  obtain d' where a: "addRegionElement d this r = Done () d'"
    by (cases "addRegionElement d this r") auto
  have "getAttribute d' (controlElement this) ''aria-expanded''
          = getAttribute d (controlElement this) ''aria-expanded''"
    using addRegionElement_other [of "''aria-expanded''" d this r "controlElement this"] a by simp
  with Cons.prems have "hasAttribute d' (controlElement this) ''aria-expanded''"
    by (simp add: hasAttribute_iff)
  from Cons.IH [OF this] a show ?case by simp
qed

lemma initControl_Done:
  assumes "initControl d e = Done this d1"
  shows "element_querySelector d e COLLAPSIBLE_CONTROL_CLASS = Some (controlElement this)"
    and "element this = e"
    and "hasAttribute d1 (controlElement this) ''aria-expanded''"
    and "\<not> hasAttribute d (controlElement this) ''aria-expanded'' \<Longrightarrow>
         getAttribute d1 (controlElement this) ''aria-expanded'' = Some ''false''"
    and "getAttribute d1 m ''aria-controls'' = getAttribute d m ''aria-controls''"
    and "classList_contains d1 m c = classList_contains d m c"
    and "followingSiblings d1 m = followingSiblings d m"
  using assms
  by (auto simp: initControl_def Let_def hasAttribute_iff followingSiblings_def
           split: option.splits if_splits)

lemma map_querySelector_error:
  "map_querySelector d is = Inl e \<Longrightarrow> e = SyntaxError"
  by (induction "is" arbitrary: e)
     (auto simp: document_querySelector_def split: sum.splits selector.splits answer.splits)

lemma regionElements_error:
  "regionElements d this = Inl e \<Longrightarrow> e = SyntaxError"
  by (auto simp: regionElements_def split: sum.splits dest: map_querySelector_error)

lemma initRegions_other:
  assumes "b \<notin> {''id'', ''role'', ''hidden'', ''tabindex'', ''aria-controls''}"
  shows "getAttribute (state (initRegions d this)) m b = getAttribute d m b"
proof (cases "if \<not> hasAttribute d (controlElement this) ''aria-controls''
            then Inr (walkSiblings d (followingSiblings d (element this)) [])
            else regionElements d this")
  case (Inl err)
  then show ?thesis by (simp add: initRegions_def)
next
  case (Inr regions)
  then show ?thesis
    by (simp add: initRegions_def forEach_addRegionElement_other [OF assms])
qed

lemma init_Done_aria_expanded:
  assumes "init d e = Done this d'"
  shows "hasAttribute d' (controlElement this) ''aria-expanded''"
proof -
  from assms obtain d1 where ic: "initControl d e = Done this d1"
    and ir: "initRegions d1 this = Done () d'"
    by (auto simp: init_def split: outcome.splits)
  have "getAttribute (state (initRegions d1 this)) (controlElement this) ''aria-expanded''
          = getAttribute d1 (controlElement this) ''aria-expanded''"
    by (rule initRegions_other) simp
  with initControl_Done(3) [OF ic] ir show ?thesis
    by (simp add: hasAttribute_iff)
qed

lemma initialized_aria_expanded:
  "initialized this d \<Longrightarrow> hasAttribute d (controlElement this) ''aria-expanded''"
proof (induction rule: initialized.induct)
  case (constructed d e this d')
  then show ?case by (simp add: Collapsible_def init_Done_aria_expanded)
next
  case (upgraded this d cls)
  then show ?case by (simp add: hasAttribute_iff)
next
  case (expanded this d)
  show ?case by (simp add: hasAttribute_iff state_expand_aria_expanded)
next
  case (collapsed this d)
  show ?case by (simp add: hasAttribute_iff state_collapse_aria_expanded)
next
  case (toggled this d)
  then show ?case
    by (auto simp: toggle_def hasAttribute_iff state_expand_aria_expanded
          state_collapse_aria_expanded split: option.splits)
next
  case (region_added this d r)
  then show ?case by (simp add: hasAttribute_iff addRegionElement_other)
next
  case (region_removed this d r)
  then show ?case by (simp add: hasAttribute_iff removeRegionElement_other)
qed

lemma expand_error:
  "expand d this = Thrown err d' \<Longrightarrow> err = SyntaxError"
  by (auto simp: expand_def Let_def split: sum.splits dest: regionElements_error)

lemma collapse_error:
  "collapse d this = Thrown err d' \<Longrightarrow> err = SyntaxError"
  by (auto simp: collapse_def Let_def split: sum.splits dest: regionElements_error)

lemma toggle_no_TypeError:
  assumes "hasAttribute d (controlElement this) ''aria-expanded''"
  shows "toggle d this \<noteq> Thrown TypeError d'"
proof -
  from assms obtain v where v: "getAttribute d (controlElement this) ''aria-expanded'' = Some v"
    by (auto simp: hasAttribute_iff)
  show ?thesis
    using expand_error [of d this TypeError d'] collapse_error [of d this TypeError d']
    by (auto simp: toggle_def v)
qed

section \<open>The control always has \<open>aria-expanded\<close>\<close>

text \<open>
  Claim C9. After a successful initialization the control element has an \<open>aria-expanded\<close>
  attribute (set to \<open>false\<close> when it was absent); \<open>expand\<close>, \<open>collapse\<close>, \<open>toggle\<close>,
  \<open>addRegionElement(s)\<close> and \<open>removeRegionElement(s)\<close> keep the attribute present, whether
  they return or throw; so on an initialized component the reads of
  \<open>getAttribute('aria-expanded')\<close> in \<open>toggle\<close> and \<open>addRegionElement\<close> never yield \<open>null\<close>:
  \<open>toggle\<close> throws no \<open>TypeError\<close> and \<open>addRegionElement\<close> returns.
\<close>

theorem aria_expanded_always_present:
  "(\<forall>d0 e. Collapsible d0 e = Done this d \<longrightarrow>
       hasAttribute d (controlElement this) ''aria-expanded''
       \<and> (\<not> hasAttribute d0 (controlElement this) ''aria-expanded'' \<longrightarrow>
            getAttribute d (controlElement this) ''aria-expanded'' = Some ''false''))
   \<and> (hasAttribute d (controlElement this) ''aria-expanded'' \<longrightarrow>
        hasAttribute (state (expand d this)) (controlElement this) ''aria-expanded''
        \<and> hasAttribute (state (collapse d this)) (controlElement this) ''aria-expanded''
        \<and> hasAttribute (state (toggle d this)) (controlElement this) ''aria-expanded''
        \<and> (\<forall>r. hasAttribute (state (addRegionElement d this r)) (controlElement this) ''aria-expanded'')
        \<and> (\<forall>r. hasAttribute (removeRegionElement d this r) (controlElement this) ''aria-expanded'')
        \<and> (\<forall>w rs. collapsible w = Some this \<longrightarrow>
              hasAttribute (state (addRegionElements d w rs)) (controlElement this) ''aria-expanded'')
        \<and> (\<forall>w rs. collapsible w = Some this \<longrightarrow>
              hasAttribute (state (removeRegionElements d w rs)) (controlElement this) ''aria-expanded''))
   \<and> (initialized this d \<longrightarrow>
        (\<exists>v. getAttribute d (controlElement this) ''aria-expanded'' = Some v)
        \<and> (\<forall>d'. toggle d this \<noteq> Thrown TypeError d')
        \<and> (\<forall>r. is_Done (addRegionElement d this r)))"
  (is "?A \<and> ?B \<and> ?C")
proof (intro conjI)
  show ?A
  proof (intro allI impI conjI)
    fix d0 e
    assume c: "Collapsible d0 e = Done this d"
    then show "hasAttribute d (controlElement this) ''aria-expanded''"
      by (simp add: Collapsible_def init_Done_aria_expanded)
    assume n: "\<not> hasAttribute d0 (controlElement this) ''aria-expanded''"
    from c obtain d1 where ic: "initControl d0 e = Done this d1"
      and ir: "initRegions d1 this = Done () d"
      by (auto simp: Collapsible_def init_def split: outcome.splits)
    have "getAttribute (state (initRegions d1 this)) (controlElement this) ''aria-expanded''
            = getAttribute d1 (controlElement this) ''aria-expanded''"
      by (rule initRegions_other) simp
    with initControl_Done(4) [OF ic n] ir
    show "getAttribute d (controlElement this) ''aria-expanded'' = Some ''false''"
      by simp
  qed
next
  show ?B
  proof (intro impI conjI allI)
    assume h: "hasAttribute d (controlElement this) ''aria-expanded''"
    show "hasAttribute (state (expand d this)) (controlElement this) ''aria-expanded''"
      by (simp add: hasAttribute_iff state_expand_aria_expanded)
    show "hasAttribute (state (collapse d this)) (controlElement this) ''aria-expanded''"
      by (simp add: hasAttribute_iff state_collapse_aria_expanded)
    show "hasAttribute (state (toggle d this)) (controlElement this) ''aria-expanded''"
      using h by (auto simp: toggle_def hasAttribute_iff state_expand_aria_expanded
          state_collapse_aria_expanded split: option.splits)
    show "hasAttribute (state (addRegionElement d this r)) (controlElement this) ''aria-expanded''" for r
      using h by (simp add: hasAttribute_iff addRegionElement_other)
    show "hasAttribute (removeRegionElement d this r) (controlElement this) ''aria-expanded''" for r
      using h by (simp add: hasAttribute_iff removeRegionElement_other)
    show "hasAttribute (state (addRegionElements d w rs)) (controlElement this) ''aria-expanded''"
      if "collapsible w = Some this" for w rs
    proof -
      have "hasAttribute (state (forEach_addRegionElement d this rs)) (controlElement this)
              ''aria-expanded''"
        by (rule forEach_addRegionElement_induct
                   [where P = "\<lambda>s. hasAttribute s (controlElement this) ''aria-expanded''"])
           (use h in \<open>simp_all add: hasAttribute_iff addRegionElement_other\<close>)
      with that show ?thesis
        by (simp add: addRegionElements_def)
    qed
    show "hasAttribute (state (removeRegionElements d w rs)) (controlElement this) ''aria-expanded''"
      if "collapsible w = Some this" for w rs
    proof -
      have "hasAttribute (forEach_removeRegionElement d this rs) (controlElement this)
              ''aria-expanded''"
        by (rule forEach_removeRegionElement_induct
                   [where P = "\<lambda>s. hasAttribute s (controlElement this) ''aria-expanded''"])
           (use h in \<open>simp_all add: hasAttribute_iff removeRegionElement_other\<close>)
      with that show ?thesis
        by (simp add: removeRegionElements_def)
    qed
  qed
next
  show ?C
  proof (intro impI conjI allI)
    assume "initialized this d"
    then have h: "hasAttribute d (controlElement this) ''aria-expanded''"
      by (rule initialized_aria_expanded)
    then show "\<exists>v. getAttribute d (controlElement this) ''aria-expanded'' = Some v"
      by (simp add: hasAttribute_iff)
    show "toggle d this \<noteq> Thrown TypeError d'" for d'
      using h by (rule toggle_no_TypeError)
    show "is_Done (addRegionElement d this r)" for r
      using h by (rule addRegionElement_Done)
  qed
qed

text \<open>The component built on the page with two sibling regions is initialized.\<close>

lemma page_siblings_initialized:
  "initialized the_component (state (Collapsible page_siblings 1))"
proof -
  have "is_Done (Collapsible page_siblings 1)"
    by code_simp
  moreover have "returned (Collapsible page_siblings 1) = the_component"
    by code_simp
  ultimately have "Collapsible page_siblings 1
      = Done the_component (state (Collapsible page_siblings 1))"
    by (rule outcome_eq_Done)
  then show ?thesis
    by (rule initialized.constructed)
qed

theorem aria_expanded_always_present_witness:
  "initialized the_component (state (Collapsible page_siblings 1))
   \<and> getAttribute (state (Collapsible page_siblings 1)) 2 ''aria-expanded'' = Some ''false''
   \<and> hasAttribute (state (expand (state (Collapsible page_siblings 1)) the_component)) 2
         ''aria-expanded''
   \<and> is_Done (addRegionElement (state (Collapsible page_siblings 1)) the_component 0)"
proof -
  have c: "controlElement the_component = 2"
    by (simp add: the_component_def)
  have v: "getAttribute (state (Collapsible page_siblings 1)) 2 ''aria-expanded'' = Some ''false''"
    by code_simp
  then have h: "hasAttribute (state (Collapsible page_siblings 1)) 2 ''aria-expanded''"
    by (simp add: hasAttribute_iff)
  from aria_expanded_always_present
         [of the_component "state (Collapsible page_siblings 1)"]
  show ?thesis
    using page_siblings_initialized v h by (simp add: c)
qed

section \<open>Adding a region id\<close>

text \<open>
  Claim C7 says that \<open>regionIds\<close> is the \<open>aria-controls\<close> value split on single
  spaces (the empty list without the attribute), and that \<open>addRegionId(id)\<close> appends the
  id exactly when it is not in that list, leaving \<open>aria-controls\<close> unchanged when it is.
  The first part is the definition of \<open>regionIds\<close>; \<open>addRegionId_eq\<close> above gives the
  second part for every non-empty id. For the empty id the code departs from it: with
  \<open>aria-controls=""\<close> the list is \<open>['']\<close>, \<open>find\<close> returns the \<open>''\<close> it found, which
  is falsy, and \<open>addRegionId('')\<close> appends \<open>''\<close> again, rewriting \<open>aria-controls\<close> to
  \<open>" "\<close>. The same happens through \<open>addRegionElement\<close>: a sibling region with
  \<open>id=""\<close> is listed by the constructor as \<open>aria-controls=""\<close>, and adding that region
  again makes it \<open>" "\<close>.
\<close>

theorem addRegionId_appends_empty_id_again:
  "regionIds page_empty_controls the_component = [[]]
   \<and> [] \<in> set (regionIds page_empty_controls the_component)
   \<and> getAttribute (addRegionId page_empty_controls the_component []) 2 ''aria-controls''
       = Some '' ''
   \<and> regionIds (addRegionId page_empty_controls the_component []) the_component = [[], []]
   \<and> is_Done (Collapsible page_empty_id 1)
   \<and> getAttribute (state (Collapsible page_empty_id 1)) 2 ''aria-controls'' = Some []
   \<and> getAttribute (state (addRegionElement (state (Collapsible page_empty_id 1)) the_component 3))
         2 ''aria-controls'' = Some '' ''"
proof (intro conjI)
  show "is_Done (Collapsible page_empty_id 1)"
    by code_simp
  show "getAttribute (state (Collapsible page_empty_id 1)) 2 ''aria-controls'' = Some []"
    by code_simp
  show "getAttribute (state (addRegionElement (state (Collapsible page_empty_id 1)) the_component 3))
         2 ''aria-controls'' = Some '' ''"
    by code_simp
  show "regionIds page_empty_controls the_component = [[]]"
    by code_simp
  show "[] \<in> set (regionIds page_empty_controls the_component)"
    by code_simp
  show "getAttribute (addRegionId page_empty_controls the_component []) 2 ''aria-controls''
          = Some '' ''"
    by code_simp
  show "regionIds (addRegionId page_empty_controls the_component []) the_component = [[], []]"
    by code_simp
qed

section \<open>When the constructor throws\<close>

lemma addRegionElement_error:
  "addRegionElement d this r = Thrown err d' \<Longrightarrow> err = TypeError"
  by (auto simp: addRegionElement_def Let_def split: option.splits)

lemma forEach_addRegionElement_error:
  "forEach_addRegionElement d this rs = Thrown err d' \<Longrightarrow> err = TypeError"
  by (induction rs arbitrary: d)
     (auto split: outcome.splits dest: addRegionElement_error)

lemma initRegions_error:
  "initRegions d this = Thrown err d' \<Longrightarrow>
   err = TypeError \<or> err = SyntaxError"
  by (auto simp: initRegions_def split: sum.splits if_splits
           dest: regionElements_error forEach_addRegionElement_error)

text \<open>
  The guard of \<open>initControl\<close>: the error \<open>A collapsible must contain an element with
  class="mdlext-collapsible-control"\<close> is thrown if and only if the element has no
  descendant with class \<open>mdlext-collapsible-control\<close>, and it is thrown before anything is
  written.
\<close>

lemma constructor_throws_missing_control:
  "(Collapsible d e = Thrown MISSING_CONTROL d)
     = (element_querySelector d e COLLAPSIBLE_CONTROL_CLASS = None)
   \<and> (\<forall>d'. Collapsible d e = Thrown MISSING_CONTROL d' \<longrightarrow> d' = d)"
proof (cases "element_querySelector d e COLLAPSIBLE_CONTROL_CLASS")
  case None
  then have "Collapsible d e = Thrown MISSING_CONTROL d"
    by (simp add: Collapsible_def init_def initControl_def)
  with None show ?thesis by simp
next
  case (Some c)
  then obtain this d1 where ic: "initControl d e = Done this d1"
    by (simp add: initControl_def Let_def)
  have "Collapsible d e \<noteq> Thrown MISSING_CONTROL d'" for d'
    using initRegions_error [of d1 this MISSING_CONTROL d']
    by (auto simp: Collapsible_def init_def ic MISSING_CONTROL_def split: outcome.splits)
  with Some show ?thesis by simp
qed

text \<open>A detached \<open>div\<close> without a control, as in the test of the missing control.\<close>

lemma constructor_throws_on_empty_div:
  "element_querySelector page_no_control 5 COLLAPSIBLE_CONTROL_CLASS = None
   \<and> Collapsible page_no_control 5 = Thrown MISSING_CONTROL page_no_control"
proof -
  have n: "element_querySelector page_no_control 5 COLLAPSIBLE_CONTROL_CLASS = None"
    by code_simp
  with constructor_throws_missing_control [of page_no_control 5] show ?thesis
    by simp
qed

text \<open>
  Claim C10 says that the constructor throws if and only if the element has no descendant
  with class \<open>mdlext-collapsible-control\<close>, and that nothing has been written when it
  throws. Here the control is present and its \<open>aria-controls\<close> attribute is empty:
  the constructor writes \<open>aria-expanded\<close> and \<open>tabindex\<close> to the control and then
  throws, since \<open>regionIds\<close> is \<open>['']\<close> and \<open>document.querySelector('#')\<close> raises a
  \<open>SyntaxError\<close>; the same selector is built by \<open>expand\<close> and \<open>collapse\<close>. (The error
  for the missing control is thrown exactly when the control is missing, and before any
  write: \<open>constructor_throws_missing_control\<close>.)
\<close>

theorem constructor_throws_with_control:
  "element_querySelector page_empty_controls 1 COLLAPSIBLE_CONTROL_CLASS = Some 2
   \<and> is_Thrown (Collapsible page_empty_controls 1)
   \<and> thrown (Collapsible page_empty_controls 1) = SyntaxError
   \<and> getAttribute page_empty_controls 2 ''aria-expanded'' = None
   \<and> getAttribute (state (Collapsible page_empty_controls 1)) 2 ''aria-expanded'' = Some ''false''
   \<and> getAttribute page_empty_controls 2 ''tabindex'' = None
   \<and> getAttribute (state (Collapsible page_empty_controls 1)) 2 ''tabindex'' = Some ''0''"
proof (intro conjI)
  show "element_querySelector page_empty_controls 1 COLLAPSIBLE_CONTROL_CLASS = Some 2"
    by code_simp
  show "is_Thrown (Collapsible page_empty_controls 1)"
    by code_simp
  show "thrown (Collapsible page_empty_controls 1) = SyntaxError"
    by code_simp
  show "getAttribute page_empty_controls 2 ''aria-expanded'' = None"
    by code_simp
  show "getAttribute (state (Collapsible page_empty_controls 1)) 2 ''aria-expanded'' = Some ''false''"
    by code_simp
  show "getAttribute page_empty_controls 2 ''tabindex'' = None"
    by code_simp
  show "getAttribute (state (Collapsible page_empty_controls 1)) 2 ''tabindex'' = Some ''0''"
    by code_simp
qed

section \<open>Regions found among the following siblings\<close>

lemma walkSiblings_eq:
  "walkSiblings d rs regions =
     regions @ filter (\<lambda>r. classList_contains d r COLLAPSIBLE_REGION_CLASS)
       (takeWhile (\<lambda>r. classList_contains d r COLLAPSIBLE_REGION_CLASS
                        \<or> \<not> classList_contains d r JS_COLLAPSIBLE) rs)"
  by (induction rs arbitrary: regions) auto

lemma walkSiblings_cong:
  "(\<And>r. classList_contains d' r COLLAPSIBLE_REGION_CLASS = classList_contains d r COLLAPSIBLE_REGION_CLASS) \<Longrightarrow>
   (\<And>r. classList_contains d' r JS_COLLAPSIBLE = classList_contains d r JS_COLLAPSIBLE) \<Longrightarrow>
   walkSiblings d' rs regions = walkSiblings d rs regions"
  by (simp add: walkSiblings_eq)

text \<open>
  Claim C5, amended. When the control has no \<open>aria-controls\<close> attribute, initialization
  walks the following siblings of the component element in document order and adds as a
  region, in that order, every sibling with class \<open>mdlext-collapsible-region\<close> met before
  the walk stops; the walk stops at the first sibling that has class
  \<open>mdlext-js-collapsible\<close> and does not have class \<open>mdlext-collapsible-region\<close>, or at
  the end of the siblings. Siblings with neither class are skipped; a sibling with both
  classes is added and the walk goes on. Initialization then returns.
\<close>

theorem init_adds_sibling_regions:
  assumes "element_querySelector d e COLLAPSIBLE_CONTROL_CLASS = Some c"
    and "\<not> hasAttribute d c ''aria-controls''"
  shows "\<exists>d1 d2.
           initControl d e = Done \<lparr>element = e, controlElement = c\<rparr> d1
           \<and> forEach_addRegionElement d1 \<lparr>element = e, controlElement = c\<rparr>
                (filter (\<lambda>r. classList_contains d r COLLAPSIBLE_REGION_CLASS)
                   (takeWhile (\<lambda>r. classList_contains d r COLLAPSIBLE_REGION_CLASS
                                    \<or> \<not> classList_contains d r JS_COLLAPSIBLE)
                      (followingSiblings d e))) = Done () d2
           \<and> init d e = Done \<lparr>element = e, controlElement = c\<rparr> d2"
proof -
  let ?obj = "\<lparr>element = e, controlElement = c\<rparr>"
  let ?regions = "filter (\<lambda>r. classList_contains d r COLLAPSIBLE_REGION_CLASS)
                   (takeWhile (\<lambda>r. classList_contains d r COLLAPSIBLE_REGION_CLASS
                                    \<or> \<not> classList_contains d r JS_COLLAPSIBLE)
                      (followingSiblings d e))"
  from assms(1) obtain d1 where ic: "initControl d e = Done ?obj d1"
    by (simp add: initControl_def Let_def)
  have nc: "\<not> hasAttribute d1 (controlElement ?obj) ''aria-controls''"
    using assms(2) initControl_Done(5) [OF ic, of c] by (simp add: hasAttribute_iff)
  have w: "walkSiblings d1 (followingSiblings d1 (element ?obj)) [] = ?regions"
    using initControl_Done(6,7) [OF ic] by (simp add: walkSiblings_eq)
  have ir: "initRegions d1 ?obj = forEach_addRegionElement d1 ?obj ?regions"
    using nc w by (simp add: initRegions_def)
  have "is_Done (forEach_addRegionElement d1 ?obj ?regions)"
    using initControl_Done(3) [OF ic] by (rule forEach_addRegionElement_Done)
  then obtain d2 where fe: "forEach_addRegionElement d1 ?obj ?regions = Done () d2"
    by (cases "forEach_addRegionElement d1 ?obj ?regions") auto
  have "init d e = Done ?obj d2"
    by (simp add: init_def ic ir fe)
  with ic fe show ?thesis by blast
qed

theorem init_adds_sibling_regions_witness:
  "element_querySelector page_nested_component 1 COLLAPSIBLE_CONTROL_CLASS = Some 2
   \<and> \<not> hasAttribute page_nested_component 2 ''aria-controls''
   \<and> (\<exists>d1 d2. initControl page_nested_component 1 = Done the_component d1
         \<and> forEach_addRegionElement d1 the_component [3, 4] = Done () d2
         \<and> init page_nested_component 1 = Done the_component d2)"
proof -
  have h1: "element_querySelector page_nested_component 1 COLLAPSIBLE_CONTROL_CLASS = Some 2"
    by code_simp
  have h2: "\<not> hasAttribute page_nested_component 2 ''aria-controls''"
    by code_simp
  have r: "filter (\<lambda>r. classList_contains page_nested_component r COLLAPSIBLE_REGION_CLASS)
             (takeWhile (\<lambda>r. classList_contains page_nested_component r COLLAPSIBLE_REGION_CLASS
                              \<or> \<not> classList_contains page_nested_component r JS_COLLAPSIBLE)
                (followingSiblings page_nested_component 1)) = [3, 4]"
    by code_simp
  from init_adds_sibling_regions [OF h1 h2, unfolded r, folded the_component_def] h1 h2
  show ?thesis
    by blast
qed

text \<open>
  Claim C5 as stated fails: the first sibling (node 3) has class
  \<open>mdlext-js-collapsible\<close>, so by the claim the walk stops there and finds no region; it
  also has class \<open>mdlext-collapsible-region\<close>, and the code adds it, goes on, and adds
  node 4.
\<close>

theorem walk_passes_component_with_region_class:
  "followingSiblings page_nested_component 1 = [3, 4]
   \<and> classList_contains page_nested_component 3 JS_COLLAPSIBLE
   \<and> spec_siblingRegions page_nested_component 1 = []
   \<and> walkSiblings page_nested_component (followingSiblings page_nested_component 1) [] = [3, 4]
   \<and> walkSiblings page_nested_component (followingSiblings page_nested_component 1) []
       \<noteq> spec_siblingRegions page_nested_component 1
   \<and> getAttribute (state (init page_nested_component 1)) 4 ''role'' = Some ''region''"
proof (intro conjI)
  show "followingSiblings page_nested_component 1 = [3, 4]"
    by code_simp
  show "classList_contains page_nested_component 3 JS_COLLAPSIBLE"
    by code_simp
  show "spec_siblingRegions page_nested_component 1 = []"
    by code_simp
  show "walkSiblings page_nested_component (followingSiblings page_nested_component 1) [] = [3, 4]"
    by code_simp
  show "walkSiblings page_nested_component (followingSiblings page_nested_component 1) []
       \<noteq> spec_siblingRegions page_nested_component 1"
    by code_simp
  show "getAttribute (state (init page_nested_component 1)) 4 ''role'' = Some ''region''"
    by code_simp
qed

section \<open>Attributes given in the markup\<close>

text \<open>
  An \<open>aria-expanded\<close>, \<open>tabindex\<close> or \<open>id\<close> attribute that an element has before
  \<open>init\<close> keeps its value, whether \<open>init\<close> returns or throws.
\<close>

lemma addRegionElement_keeps_supplied:
  assumes "a \<in> {''aria-expanded'', ''tabindex'', ''id''}" and "getAttribute d n a = Some v"
  shows "getAttribute (state (addRegionElement d this r)) n a = Some v"
proof -
  have 1: "getAttribute (state (addRegionElement d this r)) n ''aria-expanded'' = Some v"
    if "getAttribute d n ''aria-expanded'' = Some v"
    using that by (simp add: addRegionElement_other)
  have 2: "getAttribute (state (addRegionElement d this r)) n ''tabindex'' = Some v"
    if "getAttribute d n ''tabindex'' = Some v"
    using that
    by (auto simp: addRegionElement_def Let_def addRegionId_other hasAttribute_iff
          split: option.splits)
  have 3: "getAttribute (state (addRegionElement d this r)) n ''id'' = Some v"
    if "getAttribute d n ''id'' = Some v"
    using that
    by (auto simp: addRegionElement_def Let_def addRegionId_other hasAttribute_iff
          split: option.splits)
  from assms 1 2 3 show ?thesis by blast
qed

lemma initControl_keeps_supplied:
  assumes "a \<in> {''aria-expanded'', ''tabindex'', ''id''}" and "getAttribute d n a = Some v"
  shows "getAttribute (state (initControl d e)) n a = Some v"
proof (cases "element_querySelector d e COLLAPSIBLE_CONTROL_CLASS")
  case None
  then show ?thesis
    using assms(2) by (simp add: initControl_def)
next
  case (Some c)
  have 1: "getAttribute (state (initControl d e)) n ''aria-expanded'' = Some v"
    if "getAttribute d n ''aria-expanded'' = Some v"
    using that by (auto simp: initControl_def Some Let_def hasAttribute_iff)
  have 2: "getAttribute (state (initControl d e)) n ''tabindex'' = Some v"
    if "getAttribute d n ''tabindex'' = Some v"
    using that by (auto simp: initControl_def Some Let_def hasAttribute_iff)
  have 3: "getAttribute (state (initControl d e)) n ''id'' = Some v"
    if "getAttribute d n ''id'' = Some v"
    using that by (auto simp: initControl_def Some Let_def hasAttribute_iff)
  from assms 1 2 3 show ?thesis by blast
qed

lemma init_keeps_supplied:
  assumes "a \<in> {''aria-expanded'', ''tabindex'', ''id''}" and "getAttribute d n a = Some v"
  shows "getAttribute (state (init d e)) n a = Some v"
proof (cases "initControl d e")
  case (Thrown err d')
  with initControl_keeps_supplied [OF assms, of e] show ?thesis
    by (simp add: init_def)
next
  case (Done this dc)
  with initControl_keeps_supplied [OF assms, of e]
  have c: "getAttribute dc n a = Some v"
    by simp
  have r: "getAttribute (state (initRegions dc this)) n a = Some v"
  proof (cases "if \<not> hasAttribute dc (controlElement this) ''aria-controls''
            then Inr (walkSiblings dc (followingSiblings dc (element this)) [])
            else regionElements dc this")
    case (Inl err)
    then show ?thesis
      using c by (simp add: initRegions_def)
  next
    case (Inr regions)
    have "getAttribute (state (forEach_addRegionElement dc this regions)) n a = Some v"
      by (rule forEach_addRegionElement_induct [where P = "\<lambda>s. getAttribute s n a = Some v"])
         (use c in \<open>simp_all add: addRegionElement_keeps_supplied [OF assms(1)]\<close>)
    with Inr show ?thesis
      by (simp add: initRegions_def)
  qed
  show ?thesis
    using Done r by (cases "initRegions dc this") (simp_all add: init_def)
qed

text \<open>
  Claim C2 says that first initialization leaves an \<open>aria-expanded\<close>, \<open>tabindex\<close>,
  \<open>role\<close> or \<open>id\<close> given in the markup unchanged. For the first, second and fourth
  this is \<open>init_keeps_supplied\<close>. For \<open>role\<close> the code does not: a control that is not
  a \<open>button\<close> gets \<open>role="button"\<close> and every region gets \<open>role="region"\<close>, whatever
  role they had. Here the control is a link with \<open>role="link"\<close> and the region a
  \<open>div\<close> with \<open>role="tabpanel"\<close>.
\<close>

theorem init_overwrites_role:
  "getAttribute page_author_roles 2 ''role'' = Some ''link''
   \<and> getAttribute page_author_roles 3 ''role'' = Some ''tabpanel''
   \<and> is_Done (init page_author_roles 1)
   \<and> regionElements (state (init page_author_roles 1)) the_component = Inr [3]
   \<and> getAttribute (state (init page_author_roles 1)) 2 ''role'' = Some ''button''
   \<and> getAttribute (state (init page_author_roles 1)) 3 ''role'' = Some ''region''"
proof (intro conjI)
  show "getAttribute page_author_roles 2 ''role'' = Some ''link''"
    by code_simp
  show "getAttribute page_author_roles 3 ''role'' = Some ''tabpanel''"
    by code_simp
  show "is_Done (init page_author_roles 1)"
    by code_simp
  show "regionElements (state (init page_author_roles 1)) the_component = Inr [3]"
    by code_simp
  show "getAttribute (state (init page_author_roles 1)) 2 ''role'' = Some ''button''"
    by code_simp
  show "getAttribute (state (init page_author_roles 1)) 3 ''role'' = Some ''region''"
    by code_simp
qed

section \<open>\<open>expand\<close> and \<open>collapse\<close>\<close>

text \<open>
  Claim C1 says that on an initialized component \<open>expand()\<close> sets \<open>aria-expanded\<close> to
  \<open>true\<close> and removes \<open>hidden\<close> from every region whose id is listed in
  \<open>aria-controls\<close> and resolves to an element. Here two sibling regions have the ids
  \<open>a\<close> and \<open>1\<close>; initialization succeeds and lists both. \<open>expand()\<close> then sets
  \<open>aria-expanded\<close> to \<open>true\<close> and throws, since \<open>#1\<close> is not a selector; the region
  \<open>a\<close> (node 3), which is listed and resolves, stays hidden. (When every listed id is a
  plain identifier, \<open>expand\<close> and \<open>collapse\<close> do what the claim says: \<open>expand_in_sync\<close>
  and \<open>collapse_in_sync\<close> below.)
\<close>

theorem expand_throws_on_numeric_id:
  "is_Done (Collapsible page_numeric_id 1)
   \<and> returned (Collapsible page_numeric_id 1) = the_component
   \<and> regionIds (state (Collapsible page_numeric_id 1)) the_component = [''a'', ''1'']
   \<and> document_querySelector (state (Collapsible page_numeric_id 1)) ''a'' = Inr (Some 3)
   \<and> getAttribute (state (Collapsible page_numeric_id 1)) 3 ''hidden'' = Some []
   \<and> is_Thrown (expand (state (Collapsible page_numeric_id 1)) the_component)
   \<and> thrown (expand (state (Collapsible page_numeric_id 1)) the_component) = SyntaxError
   \<and> getAttribute (state (expand (state (Collapsible page_numeric_id 1)) the_component)) 2
        ''aria-expanded'' = Some ''true''
   \<and> getAttribute (state (expand (state (Collapsible page_numeric_id 1)) the_component)) 3
        ''hidden'' = Some []"
proof (intro conjI)
  show "is_Done (Collapsible page_numeric_id 1)"
    by code_simp
  show "returned (Collapsible page_numeric_id 1) = the_component"
    by code_simp
  show "regionIds (state (Collapsible page_numeric_id 1)) the_component = [''a'', ''1'']"
    by code_simp
  show "document_querySelector (state (Collapsible page_numeric_id 1)) ''a'' = Inr (Some 3)"
    by code_simp
  show "getAttribute (state (Collapsible page_numeric_id 1)) 3 ''hidden'' = Some []"
    by code_simp
  show "is_Thrown (expand (state (Collapsible page_numeric_id 1)) the_component)"
    by code_simp
  show "thrown (expand (state (Collapsible page_numeric_id 1)) the_component) = SyntaxError"
    by code_simp
  show "getAttribute (state (expand (state (Collapsible page_numeric_id 1)) the_component)) 2
        ''aria-expanded'' = Some ''true''"
    by code_simp
  show "getAttribute (state (expand (state (Collapsible page_numeric_id 1)) the_component)) 3
        ''hidden'' = Some []"
    by code_simp
qed

section \<open>The widget forwards to its \<open>Collapsible\<close>\<close>

lemma forEach_removeRegionElement_fold:
  "forEach_removeRegionElement d this rs = fold (\<lambda>r s. removeRegionElement s this r) rs d"
  by (induction rs arbitrary: d) auto

text \<open>
  Claim C8. A widget whose constructor has returned holds a \<open>Collapsible\<close> (the one built
  for its element), and each public method returns the value and leaves the DOM that the
  corresponding method of that \<open>Collapsible\<close> does: \<open>getControlElement\<close> is
  \<open>controlElement\<close>, \<open>getRegionElements\<close> is \<open>regionElements\<close>, \<open>expand\<close>, \<open>collapse\<close>
  and \<open>toggle\<close> are the methods of the same name, and \<open>addRegionElements\<close> and
  \<open>removeRegionElements\<close> apply \<open>addRegionElement\<close> and \<open>removeRegionElement\<close> to each
  argument in order (a throw ending the sequence).
\<close>

theorem widget_forwards:
  assumes "MaterialExtCollapsible cls d0 (Some e) = Done w d1"
  shows "\<exists>c. collapsible w = Some c
           \<and> (\<exists>d'. Collapsible d0 e = Done c d' \<and> d1 = classList_add d' e cls)
           \<and> getControlElement w = Inr (controlElement c)
           \<and> getRegionElements d w = regionElements d c
           \<and> addRegionElements d w [] = Done () d
           \<and> addRegionElements d w (x # xs) =
                (case addRegionElement d c x of
                   Thrown err d' \<Rightarrow> Thrown err d'
                 | Done u d' \<Rightarrow> addRegionElements d' w xs)
           \<and> removeRegionElements d w rs = Done () (fold (\<lambda>r s. removeRegionElement s c r) rs d)
           \<and> widget_expand d w = expand d c
           \<and> widget_collapse d w = collapse d c
           \<and> widget_toggle d w = toggle d c"
proof -
  from assms obtain c d' where c: "Collapsible d0 e = Done c d'"
    and w: "w = \<lparr>widget_element = Some e, collapsible = Some c\<rparr>"
    and d1: "d1 = classList_add d' e cls"
    by (auto simp: MaterialExtCollapsible_def widget_init_def split: outcome.splits)
  have "collapsible w = Some c"
    by (simp add: w)
  then show ?thesis
    using c d1
    by (simp add: getControlElement_def getRegionElements_def addRegionElements_def
          removeRegionElements_def widget_expand_def widget_collapse_def widget_toggle_def
          forEach_removeRegionElement_fold split: outcome.splits)
qed

text \<open>The widget upgraded on the page with two sibling regions.\<close>

theorem widget_forwards_witness:
  "is_Done (MaterialExtCollapsible ''is-upgraded'' page_siblings (Some 1))
   \<and> collapsible (returned (MaterialExtCollapsible ''is-upgraded'' page_siblings (Some 1)))
       = Some the_component
   \<and> getControlElement (returned (MaterialExtCollapsible ''is-upgraded'' page_siblings (Some 1)))
       = Inr 2
   \<and> widget_expand (state (MaterialExtCollapsible ''is-upgraded'' page_siblings (Some 1)))
         (returned (MaterialExtCollapsible ''is-upgraded'' page_siblings (Some 1)))
       = expand (state (MaterialExtCollapsible ''is-upgraded'' page_siblings (Some 1)))
           the_component"
proof -
  let ?m = "MaterialExtCollapsible ''is-upgraded'' page_siblings (Some 1)"
  have dn: "is_Done ?m"
    by code_simp
  then have m: "?m = Done (returned ?m) (state ?m)"
    by (rule outcome_eq_Done) simp
  have c: "collapsible (returned ?m) = Some the_component"
    by code_simp
  have ce: "controlElement the_component = 2"
    by (simp add: the_component_def)
  from widget_forwards [OF m, of "state ?m"] c dn show ?thesis
    by (auto simp: ce)
qed

section \<open>Writes that change nothing\<close>




section \<open>Resolving the listed ids\<close>


lemma document_querySelector_identifier:
  "is_identifier i \<Longrightarrow>
   document_querySelector d i
     = Inr (List.find (\<lambda>n. getAttribute d n ''id'' = Some i) (preorder (document d)))"
  by (simp add: document_querySelector_def is_identifier_def)



lemma map_querySelector_identifiers:
  "list_all is_identifier is \<Longrightarrow>
   map_querySelector d is
     = Inr (map (\<lambda>i. List.find (\<lambda>n. getAttribute d n ''id'' = Some i) (preorder (document d))) is)"
  by (induction "is") (simp_all add: document_querySelector_identifier)

lemma set_map_filter_id: "set (List.map_filter (\<lambda>el. el) rs) = {r. Some r \<in> set rs}"
  by (induction rs) (auto simp: List.map_filter_simps split: option.splits)

lemma regionElements_Inr:
  assumes "list_all is_identifier (regionIds d this)" and "regionElements d this = Inr rs"
  shows "set rs = {r. \<exists>i \<in> set (regionIds d this). document_querySelector d i = Inr (Some r)}"
proof -
  let ?f = "\<lambda>i. List.find (\<lambda>n. getAttribute d n ''id'' = Some i) (preorder (document d))"
  from assms have rs: "rs = List.map_filter (\<lambda>el. el) (map ?f (regionIds d this))"
    by (simp add: regionElements_def map_querySelector_identifiers)
  have f: "document_querySelector d i = Inr (?f i)" if "i \<in> set (regionIds d this)" for i
    using assms(1) that by (simp add: list_all_iff document_querySelector_identifier)
  have "Some r \<in> set (map ?f (regionIds d this))
          \<longleftrightarrow> (\<exists>i \<in> set (regionIds d this). document_querySelector d i = Inr (Some r))" for r
    using f by force
  then show ?thesis
    by (simp add: rs set_map_filter_id)
qed

lemma regionElements_cong:
  assumes "list_all is_identifier (regionIds d this)" and "regionIds d' this = regionIds d this"
    and "document d' = document d"
    and "\<And>n. getAttribute d' n ''id'' = getAttribute d n ''id''"
  shows "regionElements d' this = regionElements d this"
  using assms by (simp add: regionElements_def map_querySelector_identifiers)

lemma regionElements_identifiers:
  assumes "list_all is_identifier (regionIds d this)"
  shows "\<exists>rs. regionElements d this = Inr rs"
proof -
  have "\<exists>os. map_querySelector d is = Inr os" if "list_all is_identifier is" for "is"
    using that
    by (induction "is") (auto simp: document_querySelector_identifier)
  from this [OF assms] show ?thesis
    by (auto simp: regionElements_def)
qed

section \<open>Regions in sync when the listed ids are plain identifiers\<close>

text \<open>
  When every id listed in \<open>aria-controls\<close> is a plain identifier, \<open>expand\<close> and
  \<open>collapse\<close> return, and every region that a listed id resolves to has its \<open>hidden\<close>
  attribute removed, respectively set.
\<close>

lemma expand_in_sync:
  assumes "list_all is_identifier (regionIds d this)"
  shows "\<exists>d'. expand d this = Done () d'
           \<and> getAttribute d' (controlElement this) ''aria-expanded'' = Some ''true''
           \<and> (\<forall>i \<in> set (regionIds d this). \<forall>r. document_querySelector d i = Inr (Some r) \<longrightarrow>
                 getAttribute d' r ''hidden'' = None)"
proof -
  let ?d1 = "setAttribute d (controlElement this) ''aria-expanded'' ''true''"
  have re: "regionElements ?d1 this = regionElements d this"
    using assms by (intro regionElements_cong) simp_all
  from regionElements_identifiers [OF assms]
  obtain rs where rs: "regionElements d this = Inr rs" ..
  have e: "expand d this = Done () (fold (\<lambda>region s. removeAttribute s region ''hidden'') rs ?d1)"
    by (simp add: expand_def re rs)
  have "r \<in> set rs" if "i \<in> set (regionIds d this)" "document_querySelector d i = Inr (Some r)"
    for i r
    using regionElements_Inr [OF assms rs] that by auto
  then show ?thesis
    using state_expand_aria_expanded [of d this]
    by (auto simp: e getAttribute_fold_removeAttribute)
qed

lemma collapse_in_sync:
  assumes "list_all is_identifier (regionIds d this)"
  shows "\<exists>d'. collapse d this = Done () d'
           \<and> getAttribute d' (controlElement this) ''aria-expanded'' = Some ''false''
           \<and> (\<forall>i \<in> set (regionIds d this). \<forall>r. document_querySelector d i = Inr (Some r) \<longrightarrow>
                 getAttribute d' r ''hidden'' = Some [])"
proof -
  let ?d1 = "setAttribute d (controlElement this) ''aria-expanded'' ''false''"
  have re: "regionElements ?d1 this = regionElements d this"
    using assms by (intro regionElements_cong) simp_all
  from regionElements_identifiers [OF assms]
  obtain rs where rs: "regionElements d this = Inr rs" ..
  have e: "collapse d this = Done () (fold (\<lambda>region s. setAttribute s region ''hidden'' []) rs ?d1)"
    by (simp add: collapse_def re rs)
  have "r \<in> set rs" if "i \<in> set (regionIds d this)" "document_querySelector d i = Inr (Some r)"
    for i r
    using regionElements_Inr [OF assms rs] that by auto
  then show ?thesis
    using state_collapse_aria_expanded [of d this]
    by (auto simp: e getAttribute_fold_setAttribute)
qed

section \<open>\<open>toggle\<close>\<close>

text \<open>
  On an initialized component the control has an \<open>aria-expanded\<close> value; when that
  value, lowercased, is \<open>false\<close>, \<open>toggle()\<close> is \<open>expand()\<close>, and otherwise it is
  \<open>collapse()\<close>; either way \<open>aria-expanded\<close> is switched.
\<close>

lemma toggle_follows_aria_expanded:
  assumes "initialized this d"
  shows "\<exists>v. getAttribute d (controlElement this) ''aria-expanded'' = Some v
           \<and> toggle d this = (if toLowerCase v = ''false'' then expand d this else collapse d this)
           \<and> getAttribute (state (toggle d this)) (controlElement this) ''aria-expanded''
               = Some (if toLowerCase v = ''false'' then ''true'' else ''false'')"
proof -
  from initialized_aria_expanded [OF assms]
  obtain v where v: "getAttribute d (controlElement this) ''aria-expanded'' = Some v"
    by (auto simp: hasAttribute_iff)
  then show ?thesis
    by (simp add: toggle_def state_expand_aria_expanded state_collapse_aria_expanded)
qed

text \<open>
  When every id listed in \<open>aria-controls\<close> is a plain identifier, \<open>toggle()\<close> returns
  and the regions follow the control: every region that a listed id resolves to is shown
  when the control was collapsed, and hidden otherwise.
\<close>

lemma toggle_in_sync:
  assumes "initialized this d" and "list_all is_identifier (regionIds d this)"
  shows "\<exists>v d'. getAttribute d (controlElement this) ''aria-expanded'' = Some v
           \<and> toggle d this = Done () d'
           \<and> getAttribute d' (controlElement this) ''aria-expanded''
               = Some (if toLowerCase v = ''false'' then ''true'' else ''false'')
           \<and> (\<forall>i \<in> set (regionIds d this). \<forall>r. document_querySelector d i = Inr (Some r) \<longrightarrow>
                 getAttribute d' r ''hidden''
                   = (if toLowerCase v = ''false'' then None else Some []))"
proof -
  from initialized_aria_expanded [OF assms(1)]
  obtain v where v: "getAttribute d (controlElement this) ''aria-expanded'' = Some v"
    by (auto simp: hasAttribute_iff)
  show ?thesis
  proof (cases "toLowerCase v = ''false''")
    case True
    then have "toggle d this = expand d this"
      by (simp add: toggle_def v)
    with expand_in_sync [OF assms(2)] v True show ?thesis
      by auto
  next
    case False
    then have "toggle d this = collapse d this"
      by (simp add: toggle_def v)
    with collapse_in_sync [OF assms(2)] v False show ?thesis
      by auto
  qed
qed

text \<open>
  Claim C4 says that on an initialized component \<open>toggle()\<close> is \<open>expand()\<close> when the
  control's \<open>aria-expanded\<close>, lowercased, is \<open>false\<close> and \<open>collapse()\<close> otherwise, so that
  the visibility of all associated regions is toggled. The first part is
  \<open>toggle_follows_aria_expanded\<close>. The regions do not always follow: here two sibling
  regions have the ids \<open>a\<close> and \<open>1\<close>, the constructor lists both and hides both, and
  the control is collapsed. \<open>toggle()\<close> sets \<open>aria-expanded\<close> to \<open>true\<close> and throws,
  since \<open>#1\<close> is not a selector; both regions stay hidden. A second \<open>toggle()\<close> sets
  \<open>aria-expanded\<close> back to \<open>false\<close> and throws again. (When every listed id is a plain
  identifier the regions are toggled: \<open>toggle_in_sync\<close>.)
\<close>

theorem toggle_throws_on_numeric_id:
  "is_Done (Collapsible page_numeric_id 1)
   \<and> returned (Collapsible page_numeric_id 1) = the_component
   \<and> getAttribute (state (Collapsible page_numeric_id 1)) 2 ''aria-expanded'' = Some ''false''
   \<and> getAttribute (state (Collapsible page_numeric_id 1)) 2 ''aria-controls'' = Some ''a 1''
   \<and> getAttribute (state (Collapsible page_numeric_id 1)) 3 ''hidden'' = Some []
   \<and> getAttribute (state (Collapsible page_numeric_id 1)) 4 ''hidden'' = Some []
   \<and> is_Thrown (toggle (state (Collapsible page_numeric_id 1)) the_component)
   \<and> thrown (toggle (state (Collapsible page_numeric_id 1)) the_component) = SyntaxError
   \<and> getAttribute (state (toggle (state (Collapsible page_numeric_id 1)) the_component)) 2
        ''aria-expanded'' = Some ''true''
   \<and> getAttribute (state (toggle (state (Collapsible page_numeric_id 1)) the_component)) 3
        ''hidden'' = Some []
   \<and> getAttribute (state (toggle (state (Collapsible page_numeric_id 1)) the_component)) 4
        ''hidden'' = Some []
   \<and> is_Thrown (toggle (state (toggle (state (Collapsible page_numeric_id 1)) the_component))
                  the_component)
   \<and> getAttribute (state (toggle (state (toggle (state (Collapsible page_numeric_id 1))
                  the_component)) the_component)) 2 ''aria-expanded'' = Some ''false''"
proof (intro conjI)
  show "is_Done (Collapsible page_numeric_id 1)"
    by code_simp
  show "returned (Collapsible page_numeric_id 1) = the_component"
    by code_simp
  show "getAttribute (state (Collapsible page_numeric_id 1)) 2 ''aria-expanded'' = Some ''false''"
    by code_simp
  show "getAttribute (state (Collapsible page_numeric_id 1)) 2 ''aria-controls'' = Some ''a 1''"
    by code_simp
  show "getAttribute (state (Collapsible page_numeric_id 1)) 3 ''hidden'' = Some []"
    by code_simp
  show "getAttribute (state (Collapsible page_numeric_id 1)) 4 ''hidden'' = Some []"
    by code_simp
  show "is_Thrown (toggle (state (Collapsible page_numeric_id 1)) the_component)"
    by code_simp
  show "thrown (toggle (state (Collapsible page_numeric_id 1)) the_component) = SyntaxError"
    by code_simp
  show "getAttribute (state (toggle (state (Collapsible page_numeric_id 1)) the_component)) 2
        ''aria-expanded'' = Some ''true''"
    by code_simp
  show "getAttribute (state (toggle (state (Collapsible page_numeric_id 1)) the_component)) 3
        ''hidden'' = Some []"
    by code_simp
  show "getAttribute (state (toggle (state (Collapsible page_numeric_id 1)) the_component)) 4
        ''hidden'' = Some []"
    by code_simp
  show "is_Thrown (toggle (state (toggle (state (Collapsible page_numeric_id 1)) the_component))
                  the_component)"
    by code_simp
  show "getAttribute (state (toggle (state (toggle (state (Collapsible page_numeric_id 1))
                  the_component)) the_component)) 2 ''aria-expanded'' = Some ''false''"
    by code_simp
qed

section \<open>What \<open>addRegionElement\<close> writes\<close>

lemma regionIds_snoc:
  "split_space (join_space (regionIds d this @ [i])) = regionIds d this @ split_space i"
proof (cases "getAttribute d (controlElement this) ''aria-controls''")
  case None
  then show ?thesis by (simp add: regionIds_def)
next
  case (Some v)
  then show ?thesis
    by (simp add: regionIds_def join_space_snoc split_space_append)
qed

lemma regionIds_addRegionId:
  "regionIds (addRegionId d this i) this =
     (if i \<notin> set (regionIds d this) \<or> i = [] then regionIds d this @ split_space i
      else regionIds d this)"
proof -
  have "regionIds (setAttribute d (controlElement this) ''aria-controls'' v) this = split_space v"
    for v
    by (simp add: regionIds_def)
  then show ?thesis
    by (simp add: addRegionId_eq regionIds_snoc)
qed

lemma regionIds_frame:
  "getAttribute d' (controlElement this) ''aria-controls''
     = getAttribute d (controlElement this) ''aria-controls'' \<Longrightarrow>
   regionIds d' this = regionIds d this"
  by (simp add: regionIds_def)


lemma addRegionElement_writes:
  assumes "getAttribute d (controlElement this) ''aria-expanded'' = Some v"
  shows "getAttribute (state (addRegionElement d this r)) n ''id'' =
           (if n = r \<and> getAttribute d r ''id'' = None
            then Some (''region-'' @ randomString d (randomCalls d))
            else getAttribute d n ''id'')"
    and "getAttribute (state (addRegionElement d this r)) n ''role'' =
           (if n = r then Some ''region'' else getAttribute d n ''role'')"
    and "getAttribute (state (addRegionElement d this r)) n ''hidden'' =
           (if n = r then (if toLowerCase v = ''false'' then Some [] else None)
            else getAttribute d n ''hidden'')"
    and "getAttribute (state (addRegionElement d this r)) n ''tabindex'' =
           (if n = r \<and> getAttribute d r ''tabindex'' = None then Some ''-1''
            else getAttribute d n ''tabindex'')"
  using assms
  by (auto simp: addRegionElement_def Let_def hasAttribute_iff addRegionId_other)


lemma classList_contains_addRegionId [simp]:
  "classList_contains (addRegionId d this i) n cls = classList_contains d n cls"
  by (simp add: addRegionId_eq)

lemma frame_addRegionId [simp]:
  "document (addRegionId d this i) = document d"
  "detached (addRegionId d this i) = detached d"
  "nodeName (elements (addRegionId d this i) m) = nodeName (elements d m)"
  by (simp_all add: addRegionId_eq)

lemma frame_randomCalls [simp]:
  "nodeName (elements (d\<lparr>randomCalls := k\<rparr>) m) = nodeName (elements d m)"
  by simp

lemma addRegionElement_classes:
  "is_Done (addRegionElement d this r) \<Longrightarrow>
   classList_contains (state (addRegionElement d this r)) n cls =
     (classList_contains d n cls \<or> (n = r \<and> cls = COLLAPSIBLE_REGION_CLASS))"
  by (auto simp: addRegionElement_def Let_def split: option.splits)

lemma addRegionElement_classes_other:
  "cls \<noteq> COLLAPSIBLE_REGION_CLASS \<Longrightarrow>
   classList_contains (state (addRegionElement d this r)) n cls = classList_contains d n cls"
  by (auto simp: addRegionElement_def Let_def split: option.splits)

lemma addRegionElement_tree:
  "document (state (addRegionElement d this r)) = document d"
  "detached (state (addRegionElement d this r)) = detached d"
  "nodeName (elements (state (addRegionElement d this r)) m) = nodeName (elements d m)"
  by (auto simp: addRegionElement_def Let_def split: option.splits)

lemma addRegionElement_regionIds:
  assumes "getAttribute d (controlElement this) ''aria-expanded'' = Some v"
  shows "regionIds (state (addRegionElement d this r)) this =
           (if id_of (state (addRegionElement d this r)) r \<notin> set (regionIds d this)
               \<or> id_of (state (addRegionElement d this r)) r = []
            then regionIds d this @ split_space (id_of (state (addRegionElement d this r)) r)
            else regionIds d this)"
proof -
  define d5 where "d5 =
    (let d1 = (if \<not> hasAttribute d r ''id''
                then (setAttribute d r ''id'' (''region-'' @ randomString d (randomCalls d)))
                       \<lparr>randomCalls := Suc (randomCalls d)\<rparr>
                else d);
          d2 = classList_add d1 r COLLAPSIBLE_REGION_CLASS;
          d3 = setAttribute d2 r ''role'' ''region'';
          d4 = (if toLowerCase v = ''false'' then setAttribute d3 r ''hidden'' []
                        else removeAttribute d3 r ''hidden'')
      in (if \<not> hasAttribute d4 r ''tabindex''
                        then setAttribute d4 r ''tabindex'' ''-1'' else d4))"
  have st: "state (addRegionElement d this r) = addRegionId d5 this (id_of d5 r)"
    using assms by (simp add: addRegionElement_def d5_def Let_def)
  have ctl: "getAttribute d5 (controlElement this) ''aria-controls''
               = getAttribute d (controlElement this) ''aria-controls''"
    by (simp add: d5_def Let_def)
  have ids: "regionIds d5 this = regionIds d this"
    using ctl by (rule regionIds_frame)
  have idr: "id_of (addRegionId d5 this (id_of d5 r)) r = id_of d5 r"
    by (simp add: id_of_def addRegionId_other)
  show ?thesis
    unfolding st idr by (simp add: regionIds_addRegionId ids)
qed

section \<open>Normalized regions\<close>

lemma addRegionElement_normalizes:
  assumes "getAttribute d (controlElement this) ''aria-expanded'' = Some v"
  shows "normalized_region (state (addRegionElement d this r)) this r"
proof -
  have "hasAttribute d (controlElement this) ''aria-expanded''"
    using assms by (simp add: hasAttribute_iff)
  then have "is_Done (addRegionElement d this r)"
    by (rule addRegionElement_Done)
  then show ?thesis
    using assms addRegionElement_writes [OF assms, where r = r and n = r]
      addRegionElement_other [of "''aria-expanded''" d this r "controlElement this"]
    by (auto simp: normalized_region_def hasAttribute_iff addRegionElement_classes)
qed

lemma addRegionElement_keeps_normalized:
  assumes "getAttribute d (controlElement this) ''aria-expanded'' = Some v"
    and "normalized_region d this q"
  shows "normalized_region (state (addRegionElement d this r)) this q"
proof -
  have "hasAttribute d (controlElement this) ''aria-expanded''"
    using assms by (simp add: hasAttribute_iff)
  then have "is_Done (addRegionElement d this r)"
    by (rule addRegionElement_Done)
  then show ?thesis
    using assms addRegionElement_writes [OF assms(1), where r = r and n = q]
      addRegionElement_other [of "''aria-expanded''" d this r "controlElement this"]
    by (auto simp: normalized_region_def hasAttribute_iff addRegionElement_classes)
qed


section \<open>Adding a region twice\<close>


lemma addRegionElement_lists_id:
  assumes "getAttribute d (controlElement this) ''aria-expanded'' = Some v"
    and "CHR '' '' \<notin> set (id_of (state (addRegionElement d this r)) r)"
  shows "id_of (state (addRegionElement d this r)) r
           \<in> set (regionIds (state (addRegionElement d this r)) this)"
  using addRegionElement_regionIds [OF assms(1), of r] assms(2)
  by (auto simp: split_space_single)


section \<open>The loop over the regions\<close>


lemma addRegionElement_aria_expanded:
  "getAttribute (state (addRegionElement d this r)) (controlElement this) ''aria-expanded''
     = getAttribute d (controlElement this) ''aria-expanded''"
  by (rule addRegionElement_other) simp

lemma forEach_Cons_state:
  assumes "getAttribute d (controlElement this) ''aria-expanded'' = Some v"
  shows "state (forEach_addRegionElement d this (r # rs))
           = state (forEach_addRegionElement (state (addRegionElement d this r)) this rs)"
proof -
  have "hasAttribute d (controlElement this) ''aria-expanded''"
    using assms by (simp add: hasAttribute_iff)
  then have "is_Done (addRegionElement d this r)"
    by (rule addRegionElement_Done)
  then show ?thesis
    by (cases "addRegionElement d this r") auto
qed


text \<open>Invariants of the loop that do not depend on the regions.\<close>

lemma forEach_keeps:
  assumes v: "getAttribute d (controlElement this) ''aria-expanded'' = Some v"
  shows "normalized_region d this q \<Longrightarrow>
           normalized_region (state (forEach_addRegionElement d this rs)) this q"
    and "getAttribute d n ''id'' = Some i \<Longrightarrow>
           getAttribute (state (forEach_addRegionElement d this rs)) n ''id'' = Some i"
    and "set (regionIds d this) \<subseteq> set (regionIds (state (forEach_addRegionElement d this rs)) this)"
    and "hasAttribute d n ''tabindex'' \<Longrightarrow>
           hasAttribute (state (forEach_addRegionElement d this rs)) n ''tabindex''"
    and "cls \<noteq> COLLAPSIBLE_REGION_CLASS \<Longrightarrow>
           classList_contains (state (forEach_addRegionElement d this rs)) n cls
             = classList_contains d n cls"
    and "document (state (forEach_addRegionElement d this rs)) = document d"
    and "detached (state (forEach_addRegionElement d this rs)) = detached d"
    and "nodeName (elements (state (forEach_addRegionElement d this rs)) n) = nodeName (elements d n)"
proof -
  let ?ae = "\<lambda>s. getAttribute s (controlElement this) ''aria-expanded'' = Some v"
  show "normalized_region (state (forEach_addRegionElement d this rs)) this q"
    if "normalized_region d this q"
  proof -
    have "?ae (state (forEach_addRegionElement d this rs))
          \<and> normalized_region (state (forEach_addRegionElement d this rs)) this q"
      by (rule forEach_addRegionElement_induct
                 [where P = "\<lambda>s. ?ae s \<and> normalized_region s this q"])
         (use v that in \<open>auto simp: addRegionElement_aria_expanded
                                 intro: addRegionElement_keeps_normalized\<close>)
    then show ?thesis ..
  qed
  show "getAttribute (state (forEach_addRegionElement d this rs)) n ''id'' = Some i"
    if "getAttribute d n ''id'' = Some i"
  proof -
    have "?ae (state (forEach_addRegionElement d this rs))
          \<and> getAttribute (state (forEach_addRegionElement d this rs)) n ''id'' = Some i"
      by (rule forEach_addRegionElement_induct
                 [where P = "\<lambda>s. ?ae s \<and> getAttribute s n ''id'' = Some i"])
         (use v that in \<open>auto simp: addRegionElement_aria_expanded addRegionElement_writes(1)\<close>)
    then show ?thesis ..
  qed
  show "set (regionIds d this) \<subseteq> set (regionIds (state (forEach_addRegionElement d this rs)) this)"
  proof -
    have "?ae (state (forEach_addRegionElement d this rs))
          \<and> set (regionIds d this)
              \<subseteq> set (regionIds (state (forEach_addRegionElement d this rs)) this)"
      by (rule forEach_addRegionElement_induct
                 [where P = "\<lambda>s. ?ae s \<and> set (regionIds d this) \<subseteq> set (regionIds s this)"])
         (use v in \<open>auto simp: addRegionElement_aria_expanded addRegionElement_regionIds\<close>)
    then show ?thesis ..
  qed
  show "hasAttribute (state (forEach_addRegionElement d this rs)) n ''tabindex''"
    if "hasAttribute d n ''tabindex''"
  proof -
    have "?ae (state (forEach_addRegionElement d this rs))
          \<and> hasAttribute (state (forEach_addRegionElement d this rs)) n ''tabindex''"
      by (rule forEach_addRegionElement_induct
                 [where P = "\<lambda>s. ?ae s \<and> hasAttribute s n ''tabindex''"])
         (use v that in \<open>auto simp: addRegionElement_aria_expanded addRegionElement_writes(4)
                                 hasAttribute_iff\<close>)
    then show ?thesis ..
  qed
  show "classList_contains (state (forEach_addRegionElement d this rs)) n cls
             = classList_contains d n cls" if "cls \<noteq> COLLAPSIBLE_REGION_CLASS"
    by (rule forEach_addRegionElement_induct
               [where P = "\<lambda>s. classList_contains s n cls = classList_contains d n cls"])
       (use that in \<open>simp_all add: addRegionElement_classes_other\<close>)
  show "document (state (forEach_addRegionElement d this rs)) = document d"
    by (rule forEach_addRegionElement_induct [where P = "\<lambda>s. document s = document d"])
       (simp_all add: addRegionElement_tree)
  show "detached (state (forEach_addRegionElement d this rs)) = detached d"
    by (rule forEach_addRegionElement_induct [where P = "\<lambda>s. detached s = detached d"])
       (simp_all add: addRegionElement_tree)
  show "nodeName (elements (state (forEach_addRegionElement d this rs)) n) = nodeName (elements d n)"
    by (rule forEach_addRegionElement_induct
               [where P = "\<lambda>s. nodeName (elements s n) = nodeName (elements d n)"])
       (simp_all add: addRegionElement_tree)
qed





lemma id_of_persists:
  assumes "getAttribute d (controlElement this) ''aria-expanded'' = Some v"
    and "hasAttribute d r ''id''"
  shows "id_of (state (forEach_addRegionElement d this rs)) r = id_of d r"
proof -
  from assms(2) obtain i where i: "getAttribute d r ''id'' = Some i"
    by (auto simp: hasAttribute_iff)
  from forEach_keeps(2) [OF assms(1) i, of rs] i show ?thesis
    by (simp add: id_of_def)
qed


lemma forEach_lists_id:
  assumes "getAttribute d (controlElement this) ''aria-expanded'' = Some v"
    and "r \<in> set rs"
    and "CHR '' '' \<notin> set (id_of (state (forEach_addRegionElement d this rs)) r)"
  shows "id_of (state (forEach_addRegionElement d this rs)) r
           \<in> set (regionIds (state (forEach_addRegionElement d this rs)) this)"
  using assms
proof (induction rs arbitrary: d)
  case Nil
  then show ?case by simp
next
  case (Cons q rs)
  let ?d' = "state (addRegionElement d this q)"
  let ?d'' = "state (forEach_addRegionElement ?d' this rs)"
  have v': "getAttribute ?d' (controlElement this) ''aria-expanded'' = Some v"
    using Cons.prems(1) by (simp add: addRegionElement_aria_expanded)
  have st: "state (forEach_addRegionElement d this (q # rs)) = ?d''"
    by (rule forEach_Cons_state [OF Cons.prems(1)])
  have sp: "CHR '' '' \<notin> set (id_of ?d'' r)"
    using Cons.prems(3) unfolding st .
  show ?case
  proof (cases "r \<in> set rs")
    case True
    from Cons.IH [OF v' True sp] show ?thesis
      by (simp only: st)
  next
    case False
    with Cons.prems(2) have rq: "r = q" by simp
    have "normalized_region ?d' this q"
      using Cons.prems(1) by (rule addRegionElement_normalizes)
    then have "hasAttribute ?d' q ''id''"
      by (simp add: normalized_region_def)
    then have q: "id_of ?d'' q = id_of ?d' q"
      by (rule id_of_persists [OF v'])
    with sp rq have "CHR '' '' \<notin> set (id_of ?d' q)" by simp
    from addRegionElement_lists_id [OF Cons.prems(1) this]
    have "id_of ?d' q \<in> set (regionIds ?d'' this)"
      using forEach_keeps(3) [OF v', of rs] by auto
    then show ?thesis
      unfolding st rq q .
  qed
qed

section \<open>What a second run of \<open>init\<close> reads\<close>








section \<open>Descendants and following siblings\<close>












section \<open>The second run of \<open>init\<close>\<close>










section \<open>Idempotence of the normalization\<close>




end
